theory Spec2Isabelle
  imports Complex_Main "HOL-Library.Sublist"
begin

section \<open>Python values, exceptions and library functions\<close>

text \<open>
  The two analyzers (\<^verbatim>\<open>src/analyzers/sentiment_analyzer.py\<close> and
  \<^verbatim>\<open>src/analyzers/enhanced_sentiment_analyzer.py\<close>) work on Python dictionaries,
  strings and floats. Conventions of this embedding:

  \<^item> a Python \<^verbatim>\<open>float\<close> is the \<^typ>\<open>real\<close> number it stands for. Comparison, negation
    and absolute value of floats are exact; \<^verbatim>\<open>round(x, n)\<close> rounds the value half to
    even. The sum, the quotient and the product of floats are rounded by the platform:
    they are not computed in the reals here, they are parameters (\<open>float_arith\<close>);
  \<^item> a Python \<^verbatim>\<open>str\<close> is a \<^typ>\<open>string\<close> whose characters are read as the code points
    below 256;
  \<^item> a post is a dictionary from keys to values; the value stored under
    \<^verbatim>\<open>'sentiment_analysis'\<close> is the result dictionary of an analyzer, a record here;
  \<^item> an exception is a value \<open>Inl e\<close> of a sum type, a normal return is \<open>Inr v\<close>;
  \<^item> the scoring models (TextBlob, VADER) are libraries outside the repository: they
    are parameters, and they may raise.
\<close>

datatype exn = AttributeError | TypeError | ZeroDivisionError | ModelError string

definition exn_bind :: "exn + 'a \<Rightarrow> ('a \<Rightarrow> exn + 'b) \<Rightarrow> exn + 'b" where
  "exn_bind m f = (case m of Inl e \<Rightarrow> Inl e | Inr v \<Rightarrow> f v)"

text \<open>A list comprehension \<^verbatim>\<open>[f(x) for x in xs]\<close> whose body may raise: the first
  exception, in list order, ends it.\<close>

fun map_exn :: "('a \<Rightarrow> exn + 'b) \<Rightarrow> 'a list \<Rightarrow> exn + 'b list" where
  "map_exn f [] = Inr []"
| "map_exn f (x # xs) =
     (case f x of
        Inl e \<Rightarrow> Inl e
      | Inr y \<Rightarrow> (case map_exn f xs of Inl e \<Rightarrow> Inl e | Inr ys \<Rightarrow> Inr (y # ys)))"

text \<open>A filtering comprehension \<^verbatim>\<open>[x for x in xs if c(x)]\<close> whose condition may raise.\<close>

fun filter_exn :: "('a \<Rightarrow> exn + bool) \<Rightarrow> 'a list \<Rightarrow> exn + 'a list" where
  "filter_exn c [] = Inr []"
| "filter_exn c (x # xs) =
     (case c x of
        Inl e \<Rightarrow> Inl e
      | Inr b \<Rightarrow> (case filter_exn c xs of
                   Inl e \<Rightarrow> Inl e
                 | Inr ys \<Rightarrow> Inr (if b then x # ys else ys)))"

text \<open>The floating-point arithmetic of the platform: \<open>fsum xs\<close> is what \<^verbatim>\<open>sum(xs)\<close>
  returns for a list of floats, \<open>fdiv a b\<close> what \<^verbatim>\<open>a / b\<close> returns for a divisor that is
  not zero, and \<open>fmul a b\<close> what \<^verbatim>\<open>a * b\<close> returns. Nothing is assumed of them.\<close>

record float_arith =
  fsum :: "real list \<Rightarrow> real"
  fdiv :: "real \<Rightarrow> real \<Rightarrow> real"
  fmul :: "real \<Rightarrow> real \<Rightarrow> real"

text \<open>Division \<^verbatim>\<open>a / b\<close> raises on a zero divisor.\<close>

definition py_div :: "float_arith \<Rightarrow> real \<Rightarrow> real \<Rightarrow> exn + real" where
  "py_div fl a b = (if b = 0 then Inl ZeroDivisionError else Inr (fdiv fl a b))"

text \<open>\<^verbatim>\<open>round(x, n)\<close>: to \<open>n\<close> decimals, a tie going to the even neighbour.\<close>

definition round_half_even :: "real \<Rightarrow> int" where
  "round_half_even x =
     (let f = \<lfloor>x\<rfloor>; d = x - of_int f
      in if d < 1 / 2 then f else if 1 / 2 < d then f + 1 else if even f then f else f + 1)"

definition py_round :: "real \<Rightarrow> nat \<Rightarrow> real" where
  "py_round x n = of_int (round_half_even (x * 10 ^ n)) / 10 ^ n"

text \<open>\<^verbatim>\<open>xs[:n]\<close>: a negative \<open>n\<close> counts from the end of the list.\<close>

definition py_take :: "int \<Rightarrow> 'a list \<Rightarrow> 'a list" where
  "py_take n xs = (if 0 \<le> n then take (nat n) xs else take (length xs - nat (- n)) xs)"

text \<open>\<^verbatim>\<open>sorted(xs, key=k, reverse=r)\<close> is a stable sort: elements with equal keys keep
  their original order, also when \<^verbatim>\<open>reverse=True\<close> asks for descending keys.\<close>

definition py_sorted :: "('a \<Rightarrow> real) \<Rightarrow> bool \<Rightarrow> 'a list \<Rightarrow> 'a list" where
  "py_sorted k reverse xs = (if reverse then sort_key (\<lambda>x. - k x) xs else sort_key k xs)"

text \<open>\<^verbatim>\<open>str.isspace\<close> on the code points below 256, and \<^verbatim>\<open>str.strip()\<close>.\<close>

definition isspace :: "char \<Rightarrow> bool" where
  "isspace c = ((of_char c :: nat) \<in> {9, 10, 11, 12, 13, 28, 29, 30, 31, 32, 133, 160})"

definition strip :: "string \<Rightarrow> string" where
  "strip s = rev (dropWhile isspace (rev (dropWhile isspace s)))"

text \<open>The values a post dictionary holds: \<^verbatim>\<open>None\<close>, a string, a number, or the result
  dictionary of an analyzer.\<close>

datatype 'a pyval = PNone | PStr string | PNum real | PDict 'a

type_synonym 'a post = "string \<Rightarrow> 'a pyval option"

text \<open>Truthiness: \<^verbatim>\<open>None\<close>, \<^verbatim>\<open>''\<close> and \<^verbatim>\<open>0\<close> are false; a result dictionary has
  keys and is true.\<close>

fun truthy :: "'a pyval \<Rightarrow> bool" where
  "truthy PNone = False"
| "truthy (PStr s) = (s \<noteq> [])"
| "truthy (PNum x) = (x \<noteq> 0)"
| "truthy (PDict a) = True"

definition py_or :: "'a pyval \<Rightarrow> 'a pyval \<Rightarrow> 'a pyval" where
  "py_or a b = (if truthy a then a else b)"

definition dict_get :: "'a post \<Rightarrow> string \<Rightarrow> 'a pyval \<Rightarrow> 'a pyval" where
  "dict_get d k dflt = (case d k of None \<Rightarrow> dflt | Some v \<Rightarrow> v)"

text \<open>\<^verbatim>\<open>post.get('sentiment_analysis', {})\<close> followed by a \<^verbatim>\<open>.get\<close> on what it returns:
  \<open>Inr None\<close> is the empty default dictionary; a stored value that is no dictionary has
  no \<^verbatim>\<open>get\<close>.\<close>

definition get_sentiment_analysis :: "'a post \<Rightarrow> exn + 'a option" where
  "get_sentiment_analysis post =
     (case post ''sentiment_analysis'' of
        None \<Rightarrow> Inr None
      | Some (PDict a) \<Rightarrow> Inr (Some a)
      | Some _ \<Rightarrow> Inl AttributeError)"

section \<open>The simple analyzer: \<^verbatim>\<open>SentimentAnalyzer\<close>\<close>

record sentiment_data =
  polarity :: real
  subjectivity :: real
  sentiment :: string
  confidence :: real
  error :: "string option"

definition POSITIVE_THRESHOLD :: real where
  "POSITIVE_THRESHOLD = 0.1"

definition NEGATIVE_THRESHOLD :: real where
  "NEGATIVE_THRESHOLD = - 0.1"

text \<open>\<^verbatim>\<open>SentimentAnalyzer.analyze_text\<close>. \<open>TextBlob s\<close> stands for
  \<^verbatim>\<open>TextBlob(s).sentiment\<close>: the pair (polarity, subjectivity), or \<open>Inl msg\<close> when the
  library raises an exception \<open>e\<close> with \<^verbatim>\<open>str(e) = msg\<close>. The test
  \<^verbatim>\<open>text.strip()\<close> stands before the \<^verbatim>\<open>try\<close>.\<close>

definition analyze_text ::
  "(string \<Rightarrow> string + real \<times> real) \<Rightarrow> 'a pyval \<Rightarrow> exn + sentiment_data" where
  "analyze_text TextBlob txt =
     (if \<not> truthy txt then
        Inr \<lparr>polarity = 0, subjectivity = 0, sentiment = ''neutral'', confidence = 0,
             error = None\<rparr>
      else case txt of
        PStr s \<Rightarrow>
          if strip s = [] then
            Inr \<lparr>polarity = 0, subjectivity = 0, sentiment = ''neutral'', confidence = 0,
                 error = None\<rparr>
          else (case TextBlob s of
                  Inr (pol, subj) \<Rightarrow>
                    Inr \<lparr>polarity = py_round pol 3,
                         subjectivity = py_round subj 3,
                         sentiment =
                           (if pol > POSITIVE_THRESHOLD then ''positive''
                            else if pol < NEGATIVE_THRESHOLD then ''negative''
                            else ''neutral''),
                         confidence = py_round \<bar>pol\<bar> 3,
                         error = None\<rparr>
                | Inl e \<Rightarrow>
                    Inr \<lparr>polarity = 0, subjectivity = 0, sentiment = ''neutral'',
                         confidence = 0, error = Some e\<rparr>)
      | _ \<Rightarrow> Inl AttributeError)"

subsection \<open>Aggregation over analyzed posts\<close>

record distribution =
  total :: nat
  positive :: nat
  negative :: nat
  neutral :: nat
  positive_pct :: real
  negative_pct :: real
  neutral_pct :: real

text \<open>\<^verbatim>\<open>round((count / total) * 100, 2)\<close>.\<close>

definition percentage :: "float_arith \<Rightarrow> nat \<Rightarrow> nat \<Rightarrow> exn + real" where
  "percentage fl c n =
     exn_bind (py_div fl (real c) (real n)) (\<lambda>q. Inr (py_round (fmul fl q 100) 2))"

text \<open>\<^verbatim>\<open>get_sentiment_distribution\<close>: both classes define it with the same body; \<open>sent\<close>
  reads the \<^verbatim>\<open>'sentiment'\<close> key of the class's result dictionary.\<close>

definition sentiment_distribution ::
  "float_arith \<Rightarrow> ('a \<Rightarrow> string) \<Rightarrow> 'a post list \<Rightarrow> exn + distribution" where
  "sentiment_distribution fl sent posts =
     (if posts = [] then
        Inr \<lparr>total = 0, positive = 0, negative = 0, neutral = 0,
             positive_pct = 0, negative_pct = 0, neutral_pct = 0\<rparr>
      else
        exn_bind
          (map_exn (\<lambda>post. exn_bind (get_sentiment_analysis post)
                      (\<lambda>a. Inr (case a of None \<Rightarrow> ''neutral'' | Some d \<Rightarrow> sent d))) posts)
          (\<lambda>sentiments.
             let n = length posts;
                 n_pos = count_list sentiments ''positive'';
                 n_neg = count_list sentiments ''negative'';
                 n_neu = count_list sentiments ''neutral''
             in exn_bind (percentage fl n_pos n) (\<lambda>pp.
                exn_bind (percentage fl n_neg n) (\<lambda>np.
                exn_bind (percentage fl n_neu n) (\<lambda>up.
                  Inr \<lparr>total = n, positive = n_pos, negative = n_neg, neutral = n_neu,
                       positive_pct = pp, negative_pct = np, neutral_pct = up\<rparr>)))))"

definition get_sentiment_distribution ::
  "float_arith \<Rightarrow> sentiment_data post list \<Rightarrow> exn + distribution" where
  "get_sentiment_distribution fl posts = sentiment_distribution fl sentiment posts"

record average_summary =
  avg_polarity :: real
  avg_subjectivity :: real
  overall_sentiment :: string

definition get_average_sentiment ::
  "float_arith \<Rightarrow> sentiment_data post list \<Rightarrow> exn + average_summary" where
  "get_average_sentiment fl posts =
     (if posts = [] then
        Inr \<lparr>avg_polarity = 0, avg_subjectivity = 0, overall_sentiment = ''neutral''\<rparr>
      else
        exn_bind
          (map_exn (\<lambda>post. exn_bind (get_sentiment_analysis post)
                      (\<lambda>a. Inr (case a of None \<Rightarrow> 0 | Some d \<Rightarrow> polarity d))) posts)
          (\<lambda>polarities.
        exn_bind
          (map_exn (\<lambda>post. exn_bind (get_sentiment_analysis post)
                      (\<lambda>a. Inr (case a of None \<Rightarrow> 0 | Some d \<Rightarrow> subjectivity d))) posts)
          (\<lambda>subjectivities.
        exn_bind (py_div fl (fsum fl polarities) (real (length polarities))) (\<lambda>avg_pol.
        exn_bind (py_div fl (fsum fl subjectivities) (real (length subjectivities)))
          (\<lambda>avg_subj.
          Inr \<lparr>avg_polarity = py_round avg_pol 3,
               avg_subjectivity = py_round avg_subj 3,
               overall_sentiment =
                 (if avg_pol > POSITIVE_THRESHOLD then ''positive''
                  else if avg_pol < NEGATIVE_THRESHOLD then ''negative''
                  else ''neutral'')\<rparr>)))))"

text \<open>\<^verbatim>\<open>get_platform_sentiment\<close>. The dictionary \<^verbatim>\<open>platform_posts\<close> is a list of
  (key, posts) pairs in insertion order; a result dictionary is no dictionary key.\<close>

fun hashable :: "'a pyval \<Rightarrow> bool" where
  "hashable (PDict a) = False"
| "hashable v = True"

fun group_by_platform ::
  "'a post list \<Rightarrow> ('a pyval \<times> 'a post list) list \<Rightarrow> exn + ('a pyval \<times> 'a post list) list" where
  "group_by_platform [] platform_posts = Inr platform_posts"
| "group_by_platform (post # posts) platform_posts =
     (let platform = dict_get post ''platform'' (PStr ''unknown'')
      in if \<not> hashable platform then Inl TypeError
         else group_by_platform posts
                (map (\<lambda>(k, l). if k = platform then (k, l @ [post]) else (k, l))
                   (if map_of platform_posts platform = None
                    then platform_posts @ [(platform, [])] else platform_posts)))"

definition get_platform_sentiment ::
  "float_arith \<Rightarrow> sentiment_data post list
   \<Rightarrow> exn + (sentiment_data pyval \<times> distribution) list" where
  "get_platform_sentiment fl posts =
     exn_bind (group_by_platform posts []) (\<lambda>platform_posts.
       map_exn (\<lambda>(platform, platform_post_list).
                  exn_bind (get_sentiment_distribution fl platform_post_list)
                    (\<lambda>d. Inr (platform, d)))
         platform_posts)"

text \<open>\<^verbatim>\<open>get_top_posts_by_sentiment\<close>: \<^verbatim>\<open>sorted\<close> computes the key of every element
  first, then sorts on the keys.\<close>

definition get_top_posts_by_sentiment ::
  "sentiment_data post list \<Rightarrow> string \<Rightarrow> int \<Rightarrow> exn + sentiment_data post list" where
  "get_top_posts_by_sentiment posts snt limit =
     exn_bind
       (filter_exn (\<lambda>post. exn_bind (get_sentiment_analysis post)
                      (\<lambda>a. Inr (map_option sentiment a = Some snt))) posts)
       (\<lambda>filtered_posts.
     exn_bind
       (map_exn (\<lambda>p. exn_bind (get_sentiment_analysis p)
                   (\<lambda>a. Inr (case a of None \<Rightarrow> 0 | Some d \<Rightarrow> confidence d, p)))
          filtered_posts)
       (\<lambda>keyed. Inr (py_take limit (map snd (py_sorted fst True keyed)))))"

subsection \<open>The batch loop and the heap\<close>

text \<open>
  Posts are mutable objects: the heap is the list of all dictionaries, a reference is an
  index into it, and a list of posts is a list of references (always to objects that
  exist). \<^verbatim>\<open>post.copy()\<close> allocates a new dictionary with the same items;
  \<^verbatim>\<open>d[k] = v\<close> updates the dictionary at a reference in place.
\<close>

type_synonym 'a heap = "'a post list"

definition dict_copy :: "'a heap \<Rightarrow> nat \<Rightarrow> 'a heap \<times> nat" where
  "dict_copy h r = (h @ [h ! r], length h)"

definition dict_set :: "'a heap \<Rightarrow> nat \<Rightarrow> string \<Rightarrow> 'a pyval \<Rightarrow> 'a heap" where
  "dict_set h r k v = h[r := (h ! r)(k \<mapsto> v)]"

text \<open>\<^verbatim>\<open>post.get('full_text') or post.get('text', '')\<close>.\<close>

definition post_text :: "'a post \<Rightarrow> 'a pyval" where
  "post_text d = py_or (dict_get d ''full_text'' PNone) (dict_get d ''text'' (PStr []))"

text \<open>The loop of \<^verbatim>\<open>analyze_posts\<close>, the same in both classes; \<open>analyze\<close> is the class's
  \<^verbatim>\<open>analyze_text\<close>. The heap is returned also when the loop raises.\<close>

fun analyze_posts_loop ::
  "('a pyval \<Rightarrow> exn + 'a) \<Rightarrow> 'a heap \<Rightarrow> nat list \<Rightarrow> nat list \<Rightarrow> 'a heap \<times> (exn + nat list)" where
  "analyze_posts_loop analyze h [] analyzed_posts = (h, Inr analyzed_posts)"
| "analyze_posts_loop analyze h (post # posts) analyzed_posts =
     (let txt = post_text (h ! post)
      in case analyze txt of
           Inl e \<Rightarrow> (h, Inl e)
         | Inr analysis \<Rightarrow>
             (let (h1, post_copy) = dict_copy h post;
                  h2 = dict_set h1 post_copy ''sentiment_analysis'' (PDict analysis)
              in analyze_posts_loop analyze h2 posts (analyzed_posts @ [post_copy])))"

definition analyze_posts ::
  "(string \<Rightarrow> string + real \<times> real) \<Rightarrow> sentiment_data heap \<Rightarrow> nat list
   \<Rightarrow> sentiment_data heap \<times> (exn + nat list)" where
  "analyze_posts TextBlob h posts = analyze_posts_loop (analyze_text TextBlob) h posts []"

section \<open>The enhanced analyzer: \<^verbatim>\<open>EnhancedSentimentAnalyzer\<close>\<close>

record vader_scores =
  compound :: real
  pos :: real
  neg :: real
  neu :: real

text \<open>The object \<^verbatim>\<open>self\<close>: the VADER model (\<^verbatim>\<open>self.vader.polarity_scores\<close>, which
  returns the scores or raises with a message) and the lexicons.\<close>

record analyzer =
  vader :: "string \<Rightarrow> string + vader_scores"
  strong_positive :: "string set"
  strong_negative :: "string set"
  positive_words :: "string set"
  negative_words :: "string set"
  negations :: "string set"
  intensifiers :: "string set"

text \<open>\<^verbatim>\<open>__init__\<close>, for a given VADER model.\<close>

definition EnhancedSentimentAnalyzer :: "(string \<Rightarrow> string + vader_scores) \<Rightarrow> analyzer" where
  "EnhancedSentimentAnalyzer v =
     \<lparr>vader = v,
      strong_positive =
        {''love'', ''amazing'', ''excellent'', ''fantastic'', ''wonderful'', ''brilliant'',
         ''awesome'', ''great'', ''perfect'', ''outstanding'', ''superb'', ''incredible'',
         ''magnificent'', ''spectacular'', ''phenomenal'', ''exceptional'', ''fabulous''},
      strong_negative =
        {''hate'', ''terrible'', ''awful'', ''horrible'', ''worst'', ''disgusting'',
         ''pathetic'', ''useless'', ''garbage'', ''trash'', ''disappointing'',
         ''disaster'', ''nightmare'', ''dreadful'', ''appalling'', ''atrocious''},
      positive_words =
        {''good'', ''nice'', ''fine'', ''ok'', ''decent'', ''solid'', ''happy'', ''pleased'',
         ''satisfied'', ''enjoyable'', ''fun'', ''interesting'', ''cool'', ''helpful'',
         ''useful'', ''effective'', ''efficient'', ''reliable'', ''quality''},
      negative_words =
        {''bad'', ''poor'', ''weak'', ''disappointing'', ''frustrating'', ''annoying'',
         ''sad'', ''unhappy'', ''difficult'', ''hard'', ''confusing'', ''complicated'',
         ''slow'', ''expensive'', ''broken'', ''buggy'', ''error'', ''issue'', ''problem''},
      negations =
        {''not'', ''no'', ''never'', ''nothing'', ''neither'', ''nobody'', ''nowhere'',
         ''none'', ''don'' @ [CHR 0x27] @ ''t'', ''doesn'' @ [CHR 0x27] @ ''t'',
         ''didn'' @ [CHR 0x27] @ ''t'', ''won'' @ [CHR 0x27] @ ''t'',
         ''wouldn'' @ [CHR 0x27] @ ''t'', ''shouldn'' @ [CHR 0x27] @ ''t'',
         ''can'' @ [CHR 0x27] @ ''t'', ''cannot'', ''couldn'' @ [CHR 0x27] @ ''t''},
      intensifiers =
        {''very'', ''extremely'', ''incredibly'', ''absolutely'', ''completely'',
         ''totally'', ''really'', ''quite'', ''fairly'', ''pretty'', ''highly'',
         ''exceptionally'', ''remarkably'', ''extraordinarily''}\<rparr>"

text \<open>A call of a scoring model: what the library raises is a \<open>ModelError\<close>.\<close>

definition call_model :: "string + 'a \<Rightarrow> exn + 'a" where
  "call_model r = (case r of Inl msg \<Rightarrow> Inl (ModelError msg) | Inr v \<Rightarrow> Inr v)"

subsection \<open>Tokenizer and segmenter\<close>

text \<open>\<^verbatim>\<open>str.lower()\<close> and the class \<^verbatim>\<open>\w\<close> of \<^verbatim>\<open>re\<close>, on the code points below 256.\<close>

definition lower_char :: "char \<Rightarrow> char" where
  "lower_char c =
     (let n = (of_char c :: nat)
      in if (65 \<le> n \<and> n \<le> 90) \<or> (192 \<le> n \<and> n \<le> 222 \<and> n \<noteq> 215)
         then char_of (n + 32) else c)"

definition lower :: "string \<Rightarrow> string" where
  "lower s = map lower_char s"

definition is_word_char :: "char \<Rightarrow> bool" where
  "is_word_char c =
     (let n = (of_char c :: nat)
      in (48 \<le> n \<and> n \<le> 57) \<or> (65 \<le> n \<and> n \<le> 90) \<or> n = 95 \<or> (97 \<le> n \<and> n \<le> 122)
         \<or> n \<in> {170, 178, 179, 181, 185, 186, 188, 189, 190}
         \<or> (192 \<le> n \<and> n \<le> 214) \<or> (216 \<le> n \<and> n \<le> 246) \<or> (248 \<le> n \<and> n \<le> 255))"

text \<open>\<^verbatim>\<open>re.findall(r'\b\w+\b', s)\<close>: the maximal runs of word characters, in order.
  \<open>cur\<close> is the run being read, reversed.\<close>

fun word_runs :: "string \<Rightarrow> string \<Rightarrow> string list" where
  "word_runs cur [] = (if cur = [] then [] else [rev cur])"
| "word_runs cur (c # cs) =
     (if is_word_char c then word_runs (c # cur) cs
      else (if cur = [] then [] else [rev cur]) @ word_runs [] cs)"

definition tokenize :: "string \<Rightarrow> string list" where
  "tokenize s = word_runs [] (lower s)"

text \<open>\<^verbatim>\<open>re.split(r'[.!?]+', s)\<close>: the pieces between maximal runs of the three
  delimiters, empty pieces at the ends included. \<open>in_run\<close> says that the last character
  read was a delimiter.\<close>

definition is_delimiter :: "char \<Rightarrow> bool" where
  "is_delimiter c = (c = CHR ''.'' \<or> c = CHR ''!'' \<or> c = CHR ''?'')"

fun re_split :: "bool \<Rightarrow> string \<Rightarrow> string \<Rightarrow> string list" where
  "re_split in_run cur [] = [rev cur]"
| "re_split in_run cur (c # cs) =
     (if is_delimiter c then
        (if in_run then re_split True cur cs else rev cur # re_split True [] cs)
      else re_split False (c # cur) cs)"

definition split_sentences :: "string \<Rightarrow> string list" where
  "split_sentences s = map strip (filter (\<lambda>p. strip p \<noteq> []) (re_split False [] s))"

subsection \<open>Indicator extractor\<close>

definition find_sentiment_words :: "analyzer \<Rightarrow> string list \<Rightarrow> string \<Rightarrow> (string \<times> string) list" where
  "find_sentiment_words self words sentiment_type =
     (if sentiment_type = ''positive'' then
        concat (map (\<lambda>word.
                  if word \<in> strong_positive self then [(word, ''strong'')]
                  else if word \<in> positive_words self then [(word, ''moderate'')]
                  else []) words)
      else
        concat (map (\<lambda>word.
                  if word \<in> strong_negative self then [(word, ''strong'')]
                  else if word \<in> negative_words self then [(word, ''moderate'')]
                  else []) words))"

definition find_negations :: "analyzer \<Rightarrow> string list \<Rightarrow> string list" where
  "find_negations self words = filter (\<lambda>w. w \<in> negations self) words"

definition find_intensifiers :: "analyzer \<Rightarrow> string list \<Rightarrow> string list" where
  "find_intensifiers self words = filter (\<lambda>w. w \<in> intensifiers self) words"

subsection \<open>Sentence analyzer\<close>

record sentence_entry =
  entry_text :: string
  entry_sentiment :: string
  entry_score :: real

text \<open>The body of the loop of \<^verbatim>\<open>_analyze_sentences\<close> over \<^verbatim>\<open>sentences[:5]\<close>.\<close>

fun analyze_sentences_loop :: "analyzer \<Rightarrow> string list \<Rightarrow> exn + sentence_entry list" where
  "analyze_sentences_loop self [] = Inr []"
| "analyze_sentences_loop self (sentence # rest) =
     (if sentence = [] then analyze_sentences_loop self rest
      else
        exn_bind (call_model (vader self sentence)) (\<lambda>scores.
        exn_bind (analyze_sentences_loop self rest) (\<lambda>results.
          Inr (\<lparr>entry_text =
                  (if length sentence > 100 then take 100 sentence @ ''...'' else sentence),
                entry_sentiment =
                  (if compound scores \<ge> 0.05 then ''positive''
                   else if compound scores \<le> - 0.05 then ''negative''
                   else ''neutral''),
                entry_score = py_round (compound scores) 3\<rparr> # results))))"

definition analyze_sentences :: "analyzer \<Rightarrow> string list \<Rightarrow> exn + sentence_entry list" where
  "analyze_sentences self sentences = analyze_sentences_loop self (take 5 sentences)"

subsection \<open>Explanation generator\<close>

text \<open>String formatting: \<^verbatim>\<open>str(n)\<close> of a count, \<^verbatim>\<open>f"{x:.3f}"\<close> of a score, and
  \<^verbatim>\<open>sep.join(xs)\<close>.\<close>

definition digit_char :: "nat \<Rightarrow> char" where
  "digit_char n = char_of (48 + n)"

fun str_nat :: "nat \<Rightarrow> string" where
  "str_nat n = (if n < 10 then [digit_char n] else str_nat (n div 10) @ [digit_char (n mod 10)])"

declare str_nat.simps [simp del]

definition format_3f :: "real \<Rightarrow> string" where
  "format_3f x =
     (let n = nat (round_half_even (\<bar>x\<bar> * 1000))
      in (if x < 0 then ''-'' else []) @ str_nat (n div 1000) @ ''.''
         @ [digit_char (n mod 1000 div 100), digit_char (n mod 100 div 10),
            digit_char (n mod 10)])"

fun join :: "string \<Rightarrow> string list \<Rightarrow> string" where
  "join sep [] = []"
| "join sep [x] = x"
| "join sep (x # y # ys) = x @ sep @ join sep (y # ys)"

text \<open>
  \<^verbatim>\<open>_generate_explanation\<close>. \<open>explanation_parts\<close> is the list \<^verbatim>\<open>explanation_parts\<close>
  when the function returns; the result joins it with single spaces. \<open>set_order xs\<close> is
  the order in which \<^verbatim>\<open>', '.join(set(xs))\<close> meets the distinct elements of \<open>xs\<close>: the
  interpreter's hash order, which the source does not fix.
\<close>

definition explanation_parts ::
  "(string list \<Rightarrow> string list) \<Rightarrow> string \<Rightarrow> real \<Rightarrow> (string \<times> string) list
   \<Rightarrow> (string \<times> string) list \<Rightarrow> string list \<Rightarrow> string list \<Rightarrow> sentence_entry list
   \<Rightarrow> string list" where
  "explanation_parts set_order snt score positive_indicators negative_indicators
     negations_found intensifiers_found sentence_sentiments =
     (let strong_pos = map fst (filter (\<lambda>(w, s). s = ''strong'') positive_indicators);
          moderate_pos = map fst (filter (\<lambda>(w, s). s = ''moderate'') positive_indicators);
          strong_neg = map fst (filter (\<lambda>(w, s). s = ''strong'') negative_indicators);
          moderate_neg = map fst (filter (\<lambda>(w, s). s = ''moderate'') negative_indicators);
          pos_sentences =
            length (filter (\<lambda>s. entry_sentiment s = ''positive'') sentence_sentiments);
          neg_sentences =
            length (filter (\<lambda>s. entry_sentiment s = ''negative'') sentence_sentiments)
      in
        [if snt = ''positive'' then
           ''This text is **POSITIVE** (score: '' @ format_3f score @ '').''
         else if snt = ''negative'' then
           ''This text is **NEGATIVE** (score: '' @ format_3f score @ '').''
         else
           ''This text is **NEUTRAL** (score: '' @ format_3f score @ '').'']
        @ (if positive_indicators \<noteq> [] then
             (if strong_pos \<noteq> [] then
                [''Strong positive words found: '' @ join '', '' (set_order strong_pos) @ ''.'']
              else [])
             @ (if moderate_pos \<noteq> [] then
                  [''Positive words: '' @ join '', '' (set_order moderate_pos) @ ''.'']
                else [])
           else [])
        @ (if negative_indicators \<noteq> [] then
             (if strong_neg \<noteq> [] then
                [''Strong negative words found: '' @ join '', '' (set_order strong_neg) @ ''.'']
              else [])
             @ (if moderate_neg \<noteq> [] then
                  [''Negative words: '' @ join '', '' (set_order moderate_neg) @ ''.'']
                else [])
           else [])
        @ (if negations_found \<noteq> [] then
             [''Negations detected ('' @ join '', '' (set_order negations_found)
              @ '') which may flip sentiment.'']
           else [])
        @ (if intensifiers_found \<noteq> [] then
             [''Intensifiers found ('' @ join '', '' (set_order intensifiers_found)
              @ '') which amplify sentiment.'']
           else [])
        @ (if length sentence_sentiments > 1 then
             (if pos_sentences > neg_sentences then
                [''Most sentences ('' @ str_nat pos_sentences @ ''/''
                 @ str_nat (length sentence_sentiments) @ '') are positive.'']
              else if neg_sentences > pos_sentences then
                [''Most sentences ('' @ str_nat neg_sentences @ ''/''
                 @ str_nat (length sentence_sentiments) @ '') are negative.'']
              else [])
           else []))"

definition generate_explanation ::
  "(string list \<Rightarrow> string list) \<Rightarrow> string \<Rightarrow> real \<Rightarrow> (string \<times> string) list
   \<Rightarrow> (string \<times> string) list \<Rightarrow> string list \<Rightarrow> string list \<Rightarrow> sentence_entry list
   \<Rightarrow> string" where
  "generate_explanation set_order snt score positive_indicators negative_indicators
     negations_found intensifiers_found sentence_sentiments =
     join '' '' (explanation_parts set_order snt score positive_indicators negative_indicators
                  negations_found intensifiers_found sentence_sentiments)"

definition generate_reasoning ::
  "string \<Rightarrow> (string \<times> string) list \<Rightarrow> (string \<times> string) list \<Rightarrow> string list
   \<Rightarrow> string list \<Rightarrow> string list" where
  "generate_reasoning snt positive_indicators negative_indicators negs intens =
     (if snt = ''positive'' then
        (if positive_indicators \<noteq> [] then
           [''Contains '' @ str_nat (length positive_indicators) @ '' positive indicators'']
         else [])
        @ (if intens \<noteq> [] then
             [''Uses '' @ str_nat (length intens) @ '' intensifiers to strengthen tone'']
           else [])
        @ (if negative_indicators = [] then
             [''No significant negative language detected'']
           else [])
      else if snt = ''negative'' then
        (if negative_indicators \<noteq> [] then
           [''Contains '' @ str_nat (length negative_indicators) @ '' negative indicators'']
         else [])
        @ (if intens \<noteq> [] then
             [''Uses '' @ str_nat (length intens) @ '' intensifiers to strengthen criticism'']
           else [])
        @ (if positive_indicators = [] then
             [''No significant positive language detected'']
           else [])
      else
        [''Balanced or factual language'']
        @ (if positive_indicators = [] \<and> negative_indicators = [] then
             [''Lacks strong emotional indicators'']
           else []))
     @ (if negs \<noteq> [] then
          [''Contains '' @ str_nat (length negs) @ '' negations that may affect meaning'']
        else [])"

subsection \<open>The analysis of one text\<close>

record enhanced_result =
  vader_compound :: real
  vader_positive :: real
  vader_negative :: real
  vader_neutral :: real
  textblob_polarity :: real
  textblob_subjectivity :: real
  res_sentiment :: string
  res_confidence :: string
  res_positive_words :: "(string \<times> string) list"
  res_negative_words :: "(string \<times> string) list"
  res_negations :: "string list"
  res_intensifiers :: "string list"
  sentence_breakdown :: "sentence_entry list"
  explanation :: string
  reasoning :: "string list"

definition empty_result :: enhanced_result where
  "empty_result =
     \<lparr>vader_compound = 0, vader_positive = 0, vader_negative = 0, vader_neutral = 1,
      textblob_polarity = 0, textblob_subjectivity = 0,
      res_sentiment = ''neutral'', res_confidence = ''low'',
      res_positive_words = [], res_negative_words = [],
      res_negations = [], res_intensifiers = [],
      sentence_breakdown = [],
      explanation = ''Empty or invalid text.'',
      reasoning = [''No content to analyze'']\<rparr>"

text \<open>\<^verbatim>\<open>EnhancedSentimentAnalyzer.analyze_text\<close>. Nothing here catches what a model
  raises. The pair \<open>(snt, conf)\<close> is the \<^verbatim>\<open>if/elif/else\<close> that sets \<^verbatim>\<open>sentiment\<close> and
  \<^verbatim>\<open>confidence\<close>.\<close>

definition enhanced_analyze_text ::
  "analyzer \<Rightarrow> (string \<Rightarrow> string + real \<times> real) \<Rightarrow> (string list \<Rightarrow> string list)
   \<Rightarrow> 'a pyval \<Rightarrow> exn + enhanced_result" where
  "enhanced_analyze_text self TextBlob set_order txt =
     (if \<not> truthy txt then Inr empty_result
      else case txt of
        PStr s \<Rightarrow>
          if strip s = [] then Inr empty_result
          else
            exn_bind (call_model (vader self s)) (\<lambda>scores.
            exn_bind (call_model (TextBlob s)) (\<lambda>(blob_polarity, blob_subjectivity).
              let words = tokenize (lower s);
                  sentences = split_sentences s;
                  positive_indicators = find_sentiment_words self words ''positive'';
                  negative_indicators = find_sentiment_words self words ''negative'';
                  negations_found = find_negations self words;
                  intensifiers_found = find_intensifiers self words
              in
            exn_bind (analyze_sentences self sentences) (\<lambda>sentence_sentiments.
              let score = compound scores;
                  (snt, conf) =
                    (if score \<ge> 0.05 then
                       (''positive'',
                        if score \<ge> 0.5 then ''high''
                        else if score \<ge> 0.25 then ''moderate'' else ''low'')
                     else if score \<le> - 0.05 then
                       (''negative'',
                        if score \<le> - 0.5 then ''high''
                        else if score \<le> - 0.25 then ''moderate'' else ''low'')
                     else (''neutral'', ''moderate''))
              in
                Inr \<lparr>vader_compound = py_round score 3,
                     vader_positive = py_round (pos scores) 3,
                     vader_negative = py_round (neg scores) 3,
                     vader_neutral = py_round (neu scores) 3,
                     textblob_polarity = py_round blob_polarity 3,
                     textblob_subjectivity = py_round blob_subjectivity 3,
                     res_sentiment = snt,
                     res_confidence = conf,
                     res_positive_words = positive_indicators,
                     res_negative_words = negative_indicators,
                     res_negations = negations_found,
                     res_intensifiers = intensifiers_found,
                     sentence_breakdown = sentence_sentiments,
                     explanation =
                       generate_explanation set_order snt score positive_indicators
                         negative_indicators negations_found intensifiers_found
                         sentence_sentiments,
                     reasoning =
                       generate_reasoning snt positive_indicators negative_indicators
                         negations_found intensifiers_found\<rparr>)))
      | _ \<Rightarrow> Inl AttributeError)"

definition enhanced_analyze_posts ::
  "analyzer \<Rightarrow> (string \<Rightarrow> string + real \<times> real) \<Rightarrow> (string list \<Rightarrow> string list)
   \<Rightarrow> enhanced_result heap \<Rightarrow> nat list \<Rightarrow> enhanced_result heap \<times> (exn + nat list)" where
  "enhanced_analyze_posts self TextBlob set_order h posts =
     analyze_posts_loop (enhanced_analyze_text self TextBlob set_order) h posts []"

definition enhanced_get_sentiment_distribution ::
  "float_arith \<Rightarrow> enhanced_result post list \<Rightarrow> exn + distribution" where
  "enhanced_get_sentiment_distribution fl posts = sentiment_distribution fl res_sentiment posts"

subsection \<open>Aggregation in the dashboard (\<^verbatim>\<open>src/app.py\<close>)\<close>

text \<open>The enhanced class has no methods for the average and the top posts; the dashboard
  computes them in line, on the posts the enhanced analyzer returned.\<close>

definition average_sentiment ::
  "float_arith \<Rightarrow> enhanced_result post list \<Rightarrow> exn + average_summary" where
  "average_sentiment fl analyzed_posts =
     exn_bind
       (map_exn (\<lambda>p. exn_bind (get_sentiment_analysis p)
                   (\<lambda>a. Inr (case a of None \<Rightarrow> 0 | Some d \<Rightarrow> vader_compound d)))
          analyzed_posts)
       (\<lambda>polarities.
     exn_bind
       (map_exn (\<lambda>p. exn_bind (get_sentiment_analysis p)
                   (\<lambda>a. Inr (case a of None \<Rightarrow> 0 | Some d \<Rightarrow> textblob_subjectivity d)))
          analyzed_posts)
       (\<lambda>subjectivities.
     exn_bind (if polarities \<noteq> []
               then py_div fl (fsum fl polarities) (real (length polarities)) else Inr 0)
       (\<lambda>avg_pol.
     exn_bind (if subjectivities \<noteq> []
               then py_div fl (fsum fl subjectivities) (real (length subjectivities))
               else Inr 0)
       (\<lambda>avg_subj.
         Inr \<lparr>avg_polarity = py_round avg_pol 3,
              avg_subjectivity = py_round avg_subj 3,
              overall_sentiment =
                (if avg_pol > 0.05 then ''positive''
                 else if avg_pol < - 0.05 then ''negative''
                 else ''neutral'')\<rparr>))))"

definition top_positive :: "enhanced_result post list \<Rightarrow> exn + enhanced_result post list" where
  "top_positive analyzed_posts =
     exn_bind
       (filter_exn (\<lambda>p. exn_bind (get_sentiment_analysis p)
                      (\<lambda>a. Inr (map_option res_sentiment a = Some ''positive'')))
          analyzed_posts)
       (\<lambda>filtered.
     exn_bind
       (map_exn (\<lambda>p. exn_bind (get_sentiment_analysis p)
                   (\<lambda>a. Inr (case a of None \<Rightarrow> 0 | Some d \<Rightarrow> vader_compound d, p)))
          filtered)
       (\<lambda>keyed. Inr (py_take 5 (map snd (py_sorted fst True keyed)))))"

definition top_negative :: "enhanced_result post list \<Rightarrow> exn + enhanced_result post list" where
  "top_negative analyzed_posts =
     exn_bind
       (filter_exn (\<lambda>p. exn_bind (get_sentiment_analysis p)
                      (\<lambda>a. Inr (map_option res_sentiment a = Some ''negative'')))
          analyzed_posts)
       (\<lambda>filtered.
     exn_bind
       (map_exn (\<lambda>p. exn_bind (get_sentiment_analysis p)
                   (\<lambda>a. Inr (case a of None \<Rightarrow> 0 | Some d \<Rightarrow> vader_compound d, p)))
          filtered)
       (\<lambda>keyed. Inr (py_take 5 (map snd (py_sorted fst False keyed)))))"

section \<open>Notions used to state the properties\<close>

text \<open>A post is well typed when what it stores under \<^verbatim>\<open>'sentiment_analysis'\<close>, if
  anything, is a result dictionary; \<open>analysis_of\<close> reads that dictionary, and
  \<open>field_or f dflt\<close> is \<^verbatim>\<open>post.get('sentiment_analysis', {}).get(f, dflt)\<close> on a well-typed
  post.\<close>

definition well_typed :: "'a post \<Rightarrow> bool" where
  "well_typed post =
     (case post ''sentiment_analysis'' of
        None \<Rightarrow> True
      | Some (PDict a) \<Rightarrow> True
      | Some _ \<Rightarrow> False)"

definition analysis_of :: "'a post \<Rightarrow> 'a option" where
  "analysis_of post =
     (case post ''sentiment_analysis'' of Some (PDict a) \<Rightarrow> Some a | _ \<Rightarrow> None)"

definition field_or :: "('a \<Rightarrow> 'b) \<Rightarrow> 'b \<Rightarrow> 'a post \<Rightarrow> 'b" where
  "field_or f dflt post = (case analysis_of post of None \<Rightarrow> dflt | Some d \<Rightarrow> f d)"

text \<open>The mean of a list of floats as the code computes it,
  \<^verbatim>\<open>sum(xs) / len(xs)\<close> in the arithmetic of the platform, and the arithmetic mean.\<close>

definition float_mean :: "float_arith \<Rightarrow> real list \<Rightarrow> real" where
  "float_mean fl xs = fdiv fl (fsum fl xs) (real (length xs))"

definition mean :: "real list \<Rightarrow> real" where
  "mean xs = sum_list xs / real (length xs)"

text \<open>The mean as the specification words it: the arithmetic mean over the posts that
  carry a sentiment analysis only.\<close>

definition mean_over_available :: "('a \<Rightarrow> real) \<Rightarrow> 'a post list \<Rightarrow> real" where
  "mean_over_available f posts = mean (map f (List.map_filter analysis_of posts))"

text \<open>Example posts: an analyzed post of the simple analyzer, and a post nobody analyzed.\<close>

definition simple_post :: "real \<Rightarrow> real \<Rightarrow> string \<Rightarrow> sentiment_data post" where
  "simple_post p s l =
     Map.empty(''sentiment_analysis'' \<mapsto>
       PDict \<lparr>polarity = p, subjectivity = s, sentiment = l, confidence = \<bar>p\<bar>, error = None\<rparr>)"

definition raw_post :: "string \<Rightarrow> 'a post" where
  "raw_post s = Map.empty(''text'' \<mapsto> PStr s)"

text \<open>An analyzed post of the enhanced analyzer, with the fields the dashboard reads.\<close>

definition enhanced_post :: "real \<Rightarrow> string \<Rightarrow> enhanced_result post" where
  "enhanced_post c l =
     Map.empty(''sentiment_analysis'' \<mapsto>
       PDict (empty_result\<lparr>vader_compound := c, res_sentiment := l\<rparr>))"

text \<open>A blank input: \<^verbatim>\<open>None\<close>, the empty string, or a string of white space only.\<close>

fun blank :: "'a pyval \<Rightarrow> bool" where
  "blank PNone = True"
| "blank (PStr s) = list_all isspace s"
| "blank v = False"

text \<open>What the entry of \<^verbatim>\<open>sentence_breakdown\<close> for a sentence has to be: the displayed
  text is cut after 100 characters, the label and the score come from the scores of the
  whole sentence.\<close>

definition entry_for :: "analyzer \<Rightarrow> string \<Rightarrow> sentence_entry \<Rightarrow> bool" where
  "entry_for self sentence e =
     (case vader self sentence of
        Inl m \<Rightarrow> False
      | Inr sc \<Rightarrow>
          e = \<lparr>entry_text =
                 (if length sentence \<le> 100 then sentence else take 100 sentence @ ''...''),
               entry_sentiment =
                 (if compound sc \<ge> 0.05 then ''positive''
                  else if compound sc \<le> - 0.05 then ''negative'' else ''neutral''),
               entry_score = py_round (compound sc) 3\<rparr>)"

text \<open>The label of the simple analyzer as claim C1 words it: the classification of the
  enhanced analyzer with the boundaries moved to 0.1 and -0.1, the boundaries included.\<close>

definition claimed_simple_label :: "real \<Rightarrow> string" where
  "claimed_simple_label p =
     (if p \<ge> 0.1 then ''positive'' else if p \<le> - 0.1 then ''negative'' else ''neutral'')"

text \<open>A label holds a strict majority among the entries, as claim C5 words it.\<close>

definition strict_majority :: "string \<Rightarrow> sentence_entry list \<Rightarrow> bool" where
  "strict_majority l ss =
     (length ss < 2 * length (filter (\<lambda>e. entry_sentiment e = l) ss))"

text \<open>The arithmetic of the examples. Sums, quotients and products of binary fractions
  of a few digits (0.5, 0.25, 0.125, small whole numbers) are such fractions again, and
  floating-point arithmetic computes them without rounding: on the values of the examples
  it is the exact arithmetic.\<close>

definition exact_arith :: float_arith where
  "exact_arith = \<lparr>fsum = sum_list, fdiv = (\<lambda>a b. a / b), fmul = (\<lambda>a b. a * b)\<rparr>"

text \<open>Scoring models for the examples: one that scores every text alike, one that always
  raises.\<close>

definition constant_vader :: "real \<Rightarrow> string \<Rightarrow> string + vader_scores" where
  "constant_vader c s = Inr \<lparr>compound = c, pos = 0, neg = 0, neu = 1\<rparr>"

definition constant_blob :: "real \<Rightarrow> real \<Rightarrow> string \<Rightarrow> string + real \<times> real" where
  "constant_blob p q s = Inr (p, q)"

definition failing_model :: "string \<Rightarrow> string + 'a" where
  "failing_model s = Inl ''model not available''"

text \<open>What \<^verbatim>\<open>analyze_posts\<close> has to return for the posts \<open>posts\<close> on the heap \<open>h\<close>: one
  new object for each post, in order, each the dictionary of its post with the analysis
  of the post's text stored under \<^verbatim>\<open>'sentiment_analysis'\<close> and every other key as it is
  in the post.\<close>

definition annotated_copies ::
  "('a pyval \<Rightarrow> exn + 'a) \<Rightarrow> 'a heap \<Rightarrow> nat list \<Rightarrow> 'a heap \<Rightarrow> nat list \<Rightarrow> bool" where
  "annotated_copies analyze h posts h' out =
     (length out = length posts \<and> distinct out
      \<and> (\<forall>i<length posts.
            length h \<le> out ! i \<and> out ! i < length h'
          \<and> (\<exists>a. analyze (post_text (h ! (posts ! i))) = Inr a
                 \<and> h' ! (out ! i) = (h ! (posts ! i))(''sentiment_analysis'' \<mapsto> PDict a))
          \<and> (\<forall>k. k \<noteq> ''sentiment_analysis'' \<longrightarrow> (h' ! (out ! i)) k = (h ! (posts ! i)) k)))"

section \<open>Basic facts\<close>

subsection \<open>Exceptions and dictionary access\<close>

lemma exn_bind_simps [simp]:
  "exn_bind (Inr v) f = f v" "exn_bind (Inl e) f = Inl e"
  by (simp_all add: exn_bind_def)

lemma exn_bind_eq_Inr: "exn_bind m f = Inr r \<longleftrightarrow> (\<exists>v. m = Inr v \<and> f v = Inr r)"
  by (cases m) simp_all

lemma call_model_simps [simp]:
  "call_model (Inr v) = Inr v" "call_model (Inl m) = Inl (ModelError m)"
  by (simp_all add: call_model_def)

lemma call_model_eq_Inr: "call_model m = Inr v \<longleftrightarrow> m = Inr v"
  by (cases m) simp_all

lemma get_sentiment_analysis_well_typed:
  "well_typed post \<Longrightarrow> get_sentiment_analysis post = Inr (analysis_of post)"
  by (auto simp: well_typed_def get_sentiment_analysis_def analysis_of_def
      split: option.splits pyval.splits)

lemma get_sentiment_analysis_ill_typed:
  "\<not> well_typed post \<Longrightarrow> get_sentiment_analysis post = Inl AttributeError"
  by (auto simp: well_typed_def get_sentiment_analysis_def
      split: option.splits pyval.splits)

lemma map_exn_field:
  "list_all well_typed posts \<Longrightarrow>
   map_exn (\<lambda>post. exn_bind (get_sentiment_analysis post)
                      (\<lambda>a. Inr (case a of None \<Rightarrow> dflt | Some d \<Rightarrow> f d))) posts
   = Inr (map (field_or f dflt) posts)"
  by (induction posts)
     (simp_all add: get_sentiment_analysis_well_typed field_or_def)

lemma map_exn_field_raises:
  "\<not> list_all well_typed posts \<Longrightarrow>
   map_exn (\<lambda>post. exn_bind (get_sentiment_analysis post) (\<lambda>a. Inr (g a))) posts
   = Inl AttributeError"
proof (induction posts)
  case Nil
  then show ?case by simp
next
  case (Cons p ps)
  show ?case
  proof (cases "well_typed p")
    case True
    with Cons show ?thesis
      by (simp add: get_sentiment_analysis_well_typed)
  next
    case False
    then show ?thesis
      by (simp add: get_sentiment_analysis_ill_typed)
  qed
qed

lemma filter_exn_field:
  "list_all well_typed posts \<Longrightarrow>
   filter_exn (\<lambda>post. exn_bind (get_sentiment_analysis post) (\<lambda>a. Inr (P a))) posts
   = Inr (filter (\<lambda>p. P (analysis_of p)) posts)"
  by (induction posts) (simp_all add: get_sentiment_analysis_well_typed)

lemma map_exn_keyed:
  "list_all well_typed posts \<Longrightarrow>
   map_exn (\<lambda>p. exn_bind (get_sentiment_analysis p)
              (\<lambda>a. Inr (case a of None \<Rightarrow> dflt | Some d \<Rightarrow> f d, p))) posts
   = Inr (map (\<lambda>p. (field_or f dflt p, p)) posts)"
  by (induction posts) (simp_all add: get_sentiment_analysis_well_typed field_or_def)

lemma well_typed_examples [simp]:
  "well_typed (simple_post p s l)" "well_typed (raw_post t)" "well_typed (enhanced_post c l)"
  by (simp_all add: well_typed_def simple_post_def raw_post_def enhanced_post_def)

lemma analysis_of_examples [simp]:
  "analysis_of (simple_post p s l) =
     Some \<lparr>polarity = p, subjectivity = s, sentiment = l, confidence = \<bar>p\<bar>, error = None\<rparr>"
  "analysis_of (raw_post t) = None"
  "analysis_of (enhanced_post c l) = Some (empty_result\<lparr>vader_compound := c, res_sentiment := l\<rparr>)"
  by (simp_all add: analysis_of_def simple_post_def raw_post_def enhanced_post_def)

subsection \<open>Blank strings\<close>

lemma strip_Nil [simp]: "strip [] = []"
  by (simp add: strip_def)

lemma strip_eq_Nil: "strip s = [] \<longleftrightarrow> list_all isspace s"
proof
  assume "strip s = []"
  then have a: "\<forall>c\<in>set (dropWhile isspace s). isspace c"
    unfolding strip_def by (simp only: rev_is_Nil_conv dropWhile_eq_Nil_conv set_rev)
  have "dropWhile isspace s = []"
  proof (rule ccontr)
    assume ne: "dropWhile isspace s \<noteq> []"
    then have "\<not> isspace (hd (dropWhile isspace s))" by (rule hd_dropWhile)
    moreover have "hd (dropWhile isspace s) \<in> set (dropWhile isspace s)"
      using ne by simp
    ultimately show False using a by blast
  qed
  then show "list_all isspace s"
    by (simp add: list_all_iff)
next
  assume "list_all isspace s"
  then have "dropWhile isspace s = []"
    by (simp add: list_all_iff)
  then show "strip s = []" by (simp add: strip_def del: dropWhile_eq_Nil_conv)
qed

lemma blank_cases: "blank v \<longleftrightarrow> v = PNone \<or> (\<exists>s. v = PStr s \<and> strip s = [])"
  by (cases v) (simp_all add: strip_eq_Nil)

lemma split_sentences_nonempty: "[] \<notin> set (split_sentences s)"
  by (auto simp: split_sentences_def)

lemma filter_nonempty_split_sentences:
  "filter (\<lambda>x. x \<noteq> []) (split_sentences s) = split_sentences s"
  using split_sentences_nonempty [of s] by (simp add: filter_id_conv) metis

lemma filter_take_nonempty:
  "[] \<notin> set xs \<Longrightarrow> filter (\<lambda>x. x \<noteq> []) (take n xs) = take n xs"
  by (auto simp: filter_id_conv dest: in_set_takeD)

subsection \<open>The sentence loop and the analysis of one text\<close>

lemma analyze_sentences_loop_cong:
  "vader self' = vader self \<Longrightarrow>
   analyze_sentences_loop self' ss = analyze_sentences_loop self ss"
  by (induction ss) simp_all

lemma analyze_sentences_loop_total:
  "\<forall>t. \<exists>sc. vader self t = Inr sc \<Longrightarrow> \<exists>es. analyze_sentences_loop self ss = Inr es"
proof (induction ss)
  case Nil
  then show ?case by simp
next
  case (Cons a ss)
  then obtain es where es: "analyze_sentences_loop self ss = Inr es" by blast
  from Cons.prems obtain sc where "vader self a = Inr sc" by blast
  with es show ?case by simp
qed

lemma analyze_sentences_loop_entries:
  "analyze_sentences_loop self ss = Inr es \<Longrightarrow>
   list_all2 (entry_for self) (filter (\<lambda>s. s \<noteq> []) ss) es"
proof (induction ss arbitrary: es)
  case Nil
  then show ?case by simp
next
  case (Cons a ss)
  show ?case
  proof (cases "a = []")
    case True
    with Cons show ?thesis by simp
  next
    case False
    with Cons.prems obtain sc rest where
      sc: "vader self a = Inr sc" and rest: "analyze_sentences_loop self ss = Inr rest"
      and es: "es = \<lparr>entry_text = (if length a > 100 then take 100 a @ ''...'' else a),
               entry_sentiment =
                 (if compound sc \<ge> 0.05 then ''positive''
                  else if compound sc \<le> - 0.05 then ''negative'' else ''neutral''),
               entry_score = py_round (compound sc) 3\<rparr> # rest"
      by (auto simp: exn_bind_eq_Inr call_model_eq_Inr)
    from Cons.IH [OF rest]
    have tl: "list_all2 (entry_for self) (filter (\<lambda>s. s \<noteq> []) ss) rest" .
    have hd: "entry_for self a
              \<lparr>entry_text = (if length a > 100 then take 100 a @ ''...'' else a),
               entry_sentiment =
                 (if compound sc \<ge> 0.05 then ''positive''
                  else if compound sc \<le> - 0.05 then ''negative'' else ''neutral''),
               entry_score = py_round (compound sc) 3\<rparr>"
      using sc by (simp add: entry_for_def)
    from False tl hd show ?thesis
      unfolding es by simp
  qed
qed

lemma enhanced_analyze_text_blank:
  "blank v \<Longrightarrow> enhanced_analyze_text self TextBlob set_order v = Inr empty_result"
  by (auto simp: enhanced_analyze_text_def blank_cases)

lemma enhanced_analyze_text_returns:
  assumes "enhanced_analyze_text self TextBlob set_order (PStr s) = Inr r"
    and "strip s \<noteq> []"
  shows "\<exists>sc b es. vader self s = Inr sc \<and> TextBlob s = Inr b
           \<and> analyze_sentences self (split_sentences s) = Inr es
           \<and> res_sentiment r =
                 (if compound sc \<ge> 0.05 then ''positive''
                  else if compound sc \<le> - 0.05 then ''negative'' else ''neutral'')
           \<and> sentence_breakdown r = es"
proof -
  from assms(2) have ne: "s \<noteq> []" by auto
  from assms(1) ne assms(2) obtain sc b es where
    "vader self s = Inr sc" "TextBlob s = Inr b"
    "analyze_sentences self (split_sentences s) = Inr es"
    and r: "res_sentiment r =
                 (if compound sc \<ge> 0.05 then ''positive''
                  else if compound sc \<le> - 0.05 then ''negative'' else ''neutral'')
           \<and> sentence_breakdown r = es"
    unfolding enhanced_analyze_text_def
    by (auto simp: exn_bind_eq_Inr call_model_eq_Inr Let_def split: prod.splits if_splits)
  then show ?thesis by blast
qed

lemma enhanced_analyze_text_total:
  assumes "\<forall>t. \<exists>sc. vader self t = Inr sc" and "TextBlob s = Inr b"
  shows "\<exists>r. enhanced_analyze_text self TextBlob set_order (PStr s) = Inr r"
proof -
  from assms(1) obtain sc where sc: "vader self s = Inr sc" by blast
  from analyze_sentences_loop_total [OF assms(1)] obtain es where
    es: "analyze_sentences self (split_sentences s) = Inr es"
    unfolding analyze_sentences_def by blast
  obtain p q where b: "b = (p, q)" by (cases b)
  show ?thesis
    unfolding enhanced_analyze_text_def
    by (simp add: sc assms(2) b es Let_def split: prod.splits)
qed

lemma enhanced_label_independent:
  assumes "vader self' = vader self"
  shows "map_sum id res_sentiment (enhanced_analyze_text self' TextBlob set_order' v)
       = map_sum id res_sentiment (enhanced_analyze_text self TextBlob set_order v)"
proof -
  have eq_as: "analyze_sentences self' = analyze_sentences self"
    by (rule ext) (simp add: analyze_sentences_def analyze_sentences_loop_cong [OF assms])
  show ?thesis
    unfolding enhanced_analyze_text_def
    by (cases v)
       (auto simp: eq_as assms exn_bind_def call_model_def Let_def
          split: sum.splits prod.splits)
qed

subsection \<open>Sorting and slicing\<close>

lemma insort_key_decorated:
  "\<forall>y\<in>set ys. fst y = k (snd y) \<Longrightarrow>
   map snd (insort_key (\<lambda>y. f (fst y)) (k x, x) ys) = insort_key (\<lambda>p. f (k p)) x (map snd ys)"
  by (induction ys) auto

lemma sort_key_decorated:
  "map snd (sort_key (\<lambda>y. f (fst y)) (map (\<lambda>p. (k p, p)) xs)) = sort_key (\<lambda>p. f (k p)) xs
   \<and> (\<forall>y\<in>set (sort_key (\<lambda>y. f (fst y)) (map (\<lambda>p. (k p, p)) xs)). fst y = k (snd y))"
proof (induction xs)
  case Nil
  then show ?case by simp
next
  case (Cons x xs)
  then show ?case
    by (simp add: insort_key_decorated set_insort_key)
qed

lemma py_sorted_decorated:
  "map snd (py_sorted fst rv (map (\<lambda>p. (k p, p)) xs)) = py_sorted k rv xs"
  using sort_key_decorated [of "\<lambda>x. - x" k xs] sort_key_decorated [of "\<lambda>x. x" k xs]
  by (simp add: py_sorted_def)

lemma length_py_take: "0 \<le> n \<Longrightarrow> int (length (py_take n xs)) \<le> n"
  by (simp add: py_take_def)

lemma py_take_prefix: "prefix (py_take n xs) xs"
  by (simp add: py_take_def take_is_prefix)

lemma py_take_id: "int (length xs) \<le> n \<Longrightarrow> py_take n xs = xs"
  by (auto simp: py_take_def)

lemma set_py_sorted [simp]: "set (py_sorted k rv xs) = set xs"
  by (simp add: py_sorted_def)

lemma py_sorted_stable:
  "filter (\<lambda>p. k p = c) (py_sorted k rv xs) = filter (\<lambda>p. k p = c) xs"
proof (cases rv)
  case True
  have "filter (\<lambda>p. - k p = - c) (sort_key (\<lambda>x. - k x) xs) = filter (\<lambda>p. - k p = - c) xs"
    by (rule sort_key_stable)
  with True show ?thesis by (simp add: py_sorted_def)
next
  case False
  then show ?thesis by (simp add: py_sorted_def sort_key_stable)
qed

lemma py_sorted_ordered:
  "if rv then sorted_wrt (\<lambda>a b. b \<le> a) (map k (py_sorted k rv xs))
   else sorted (map k (py_sorted k rv xs))"
proof (cases rv)
  case True
  have "sorted (map (\<lambda>x. - k x) (sort_key (\<lambda>x. - k x) xs))" by (rule sorted_sort_key)
  then have "sorted_wrt (\<lambda>a b. b \<le> a) (map k (sort_key (\<lambda>x. - k x) xs))"
    by (simp add: sorted_wrt_map)
  with True show ?thesis by (simp add: py_sorted_def)
next
  case False
  then show ?thesis by (simp add: py_sorted_def)
qed

lemma py_sorted_id:
  assumes "if rv then sorted_wrt (\<lambda>a b. b \<le> a) (map k xs) else sorted (map k xs)"
  shows "py_sorted k rv xs = xs"
proof (cases rv)
  case True
  with assms have "sorted (map (\<lambda>x. - k x) xs)" by (simp add: sorted_wrt_map)
  then have "sort_key (\<lambda>x. - k x) xs = xs" by (rule sort_key_id_if_sorted)
  with True show ?thesis by (simp add: py_sorted_def)
next
  case False
  with assms show ?thesis by (simp add: py_sorted_def sort_key_id_if_sorted)
qed

lemma prefix_filter: "prefix xs ys \<Longrightarrow> prefix (filter P xs) (filter P ys)"
  by (auto simp: prefix_def)

lemma sorted_wrt_prefix: "prefix xs ys \<Longrightarrow> sorted_wrt R ys \<Longrightarrow> sorted_wrt R xs"
  by (auto simp: prefix_def sorted_wrt_append)

text \<open>What filtering, sorting on a key and slicing give, whatever the key, the direction
  and the filter.\<close>

lemma top_list_props:
  fixes k :: "'a \<Rightarrow> real"
  defines "R \<equiv> \<lambda>n rv P posts. py_take n (py_sorted k rv (filter P posts))"
  shows "(0 \<le> n \<longrightarrow> int (length (R n rv P posts)) \<le> n)
       \<and> list_all (\<lambda>p. p \<in> set posts \<and> P p) (R n rv P posts)
       \<and> (if rv then sorted_wrt (\<lambda>a b. b \<le> a) (map k (R n rv P posts))
           else sorted (map k (R n rv P posts)))
       \<and> (\<forall>c. prefix (filter (\<lambda>p. k p = c) (R n rv P posts))
                      (filter (\<lambda>p. k p = c) (filter P posts)))"
proof (intro conjI allI)
  show "0 \<le> n \<longrightarrow> int (length (R n rv P posts)) \<le> n"
    by (simp add: R_def length_py_take)
  have pre: "prefix (R n rv P posts) (py_sorted k rv (filter P posts))"
    unfolding R_def by (rule py_take_prefix)
  then have "set (R n rv P posts) \<subseteq> set (py_sorted k rv (filter P posts))"
    by (rule set_mono_prefix)
  then show "list_all (\<lambda>p. p \<in> set posts \<and> P p) (R n rv P posts)"
    by (auto simp: list_all_iff)
  from pre have pm: "prefix (map k (R n rv P posts)) (map k (py_sorted k rv (filter P posts)))"
    by (rule map_mono_prefix)
  show "if rv then sorted_wrt (\<lambda>a b. b \<le> a) (map k (R n rv P posts))
           else sorted (map k (R n rv P posts))"
    using py_sorted_ordered [of rv k "filter P posts"] sorted_wrt_prefix [OF pm]
    by (cases rv) auto
  fix c
  from prefix_filter [OF pre, of "\<lambda>p. k p = c"]
  show "prefix (filter (\<lambda>p. k p = c) (R n rv P posts)) (filter (\<lambda>p. k p = c) (filter P posts))"
    by (simp add: py_sorted_stable)
qed

lemma get_top_posts_by_sentiment_eq:
  "list_all well_typed posts \<Longrightarrow>
   get_top_posts_by_sentiment posts snt limit =
     Inr (py_take limit (py_sorted (field_or confidence 0) True
            (filter (\<lambda>p. map_option sentiment (analysis_of p) = Some snt) posts)))"
  unfolding get_top_posts_by_sentiment_def
  by (simp add: filter_exn_field map_exn_keyed py_sorted_decorated list_all_iff)

lemma top_positive_eq:
  "list_all well_typed posts \<Longrightarrow>
   top_positive posts =
     Inr (py_take 5 (py_sorted (field_or vader_compound 0) True
            (filter (\<lambda>p. map_option res_sentiment (analysis_of p) = Some ''positive'') posts)))"
  unfolding top_positive_def
  by (simp add: filter_exn_field map_exn_keyed py_sorted_decorated list_all_iff)

lemma top_negative_eq:
  "list_all well_typed posts \<Longrightarrow>
   top_negative posts =
     Inr (py_take 5 (py_sorted (field_or vader_compound 0) False
            (filter (\<lambda>p. map_option res_sentiment (analysis_of p) = Some ''negative'') posts)))"
  unfolding top_negative_def
  by (simp add: filter_exn_field map_exn_keyed py_sorted_decorated list_all_iff)

subsection \<open>The batch loop\<close>

lemma analyze_posts_loop_Cons:
  "analyze_posts_loop analyze h (post # posts) acc =
     (case analyze (post_text (h ! post)) of
        Inl e \<Rightarrow> (h, Inl e)
      | Inr a \<Rightarrow> analyze_posts_loop analyze
                  (h @ [(h ! post)(''sentiment_analysis'' \<mapsto> PDict a)]) posts
                  (acc @ [length h]))"
  by (simp add: dict_set_def dict_copy_def split: sum.splits)

lemma analyze_posts_loop_frame:
  assumes "list_all (\<lambda>r. r < length h) posts"
    and "analyze_posts_loop analyze h posts acc = (h', res)"
  shows "take (length h) h' = h
       \<and> (\<forall>out. res = Inr out \<longrightarrow>
              out = acc @ [length h ..< length h + length posts]
            \<and> length h' = length h + length posts
            \<and> (\<forall>i<length posts. \<exists>a.
                  analyze (post_text (h ! (posts ! i))) = Inr a
                \<and> h' ! (length h + i) = (h ! (posts ! i))(''sentiment_analysis'' \<mapsto> PDict a)))"
  using assms
proof (induction posts arbitrary: h acc)
  case Nil
  then show ?case by auto
next
  case (Cons post posts)
  show ?case
  proof (cases "analyze (post_text (h ! post))")
    case (Inl e)
    with Cons.prems(2) show ?thesis
      by (auto simp: analyze_posts_loop_Cons simp del: analyze_posts_loop.simps(2))
  next
    case (Inr a)
    let ?h2 = "h @ [(h ! post)(''sentiment_analysis'' \<mapsto> PDict a)]"
    from Cons.prems(1) have ok: "list_all (\<lambda>r. r < length ?h2) posts"
      by (auto simp: list_all_iff)
    from Cons.prems(2) Inr
    have run: "analyze_posts_loop analyze ?h2 posts (acc @ [length h]) = (h', res)"
      by (simp add: analyze_posts_loop_Cons del: analyze_posts_loop.simps(2))
    note IH = Cons.IH [OF ok run]
    from IH have tk: "take (length ?h2) h' = ?h2" by blast
    then have "take (length h) (take (length ?h2) h') = take (length h) ?h2" by simp
    then have frame: "take (length h) h' = h" by (simp add: min_def)
    have new: "h' ! length h = (h ! post)(''sentiment_analysis'' \<mapsto> PDict a)"
    proof -
      have "length h < length ?h2" by simp
      then have "h' ! length h = take (length ?h2) h' ! length h" by (simp only: nth_take)
      also have "\<dots> = ?h2 ! length h" using tk by simp
      finally show ?thesis by simp
    qed
    have "\<forall>out. res = Inr out \<longrightarrow>
              out = acc @ [length h ..< length h + length (post # posts)]
            \<and> length h' = length h + length (post # posts)
            \<and> (\<forall>i<length (post # posts). \<exists>a.
                  analyze (post_text (h ! ((post # posts) ! i))) = Inr a
                \<and> h' ! (length h + i)
                    = (h ! ((post # posts) ! i))(''sentiment_analysis'' \<mapsto> PDict a))"
    proof (intro allI impI)
      fix out assume res: "res = Inr out"
      with IH have out: "out = (acc @ [length h]) @ [length ?h2 ..< length ?h2 + length posts]"
        and len: "length h' = length ?h2 + length posts"
        and each: "\<forall>i<length posts. \<exists>a.
                  analyze (post_text (?h2 ! (posts ! i))) = Inr a
                \<and> h' ! (length ?h2 + i)
                    = (?h2 ! (posts ! i))(''sentiment_analysis'' \<mapsto> PDict a)"
        by blast+
      have "[length h ..< length h + Suc (length posts)]
              = length h # [Suc (length h) ..< Suc (length h) + length posts]"
        by (subst upt_rec) simp
      with out have o1: "out = acc @ [length h ..< length h + length (post # posts)]"
        by simp
      have o2: "length h' = length h + length (post # posts)" using len by simp
      have o3: "\<exists>b. analyze (post_text (h ! ((post # posts) ! i))) = Inr b
                \<and> h' ! (length h + i)
                    = (h ! ((post # posts) ! i))(''sentiment_analysis'' \<mapsto> PDict b)"
        if i: "i < length (post # posts)" for i
      proof (cases i)
        case 0
        with Inr new show ?thesis by simp
      next
        case (Suc j)
        with i have j: "j < length posts" by simp
        with Cons.prems(1) have "posts ! j < length h" by (auto simp: list_all_iff)
        then have same: "?h2 ! (posts ! j) = h ! (posts ! j)" by (simp add: nth_append)
        from each j obtain b where
          "analyze (post_text (?h2 ! (posts ! j))) = Inr b"
          "h' ! (length ?h2 + j) = (?h2 ! (posts ! j))(''sentiment_analysis'' \<mapsto> PDict b)"
          by blast
        then have "analyze (post_text (h ! (posts ! j))) = Inr b
          \<and> h' ! (length h + Suc j) = (h ! (posts ! j))(''sentiment_analysis'' \<mapsto> PDict b)"
          unfolding same by simp
        with Suc show ?thesis by auto
      qed
      from o1 o2 o3 show "out = acc @ [length h ..< length h + length (post # posts)]
            \<and> length h' = length h + length (post # posts)
            \<and> (\<forall>i<length (post # posts). \<exists>a.
                  analyze (post_text (h ! ((post # posts) ! i))) = Inr a
                \<and> h' ! (length h + i)
                    = (h ! ((post # posts) ! i))(''sentiment_analysis'' \<mapsto> PDict a))"
        by blast
    qed
    with frame show ?thesis by blast
  qed
qed

lemma analyze_posts_loop_total:
  assumes "list_all (\<lambda>r. r < length h) posts"
    and "list_all (\<lambda>r. \<exists>a. analyze (post_text (h ! r)) = Inr a) posts"
  shows "\<exists>out. snd (analyze_posts_loop analyze h posts acc) = Inr out"
  using assms
proof (induction posts arbitrary: h acc)
  case Nil
  then show ?case by simp
next
  case (Cons post posts)
  from Cons.prems(2) obtain a where a: "analyze (post_text (h ! post)) = Inr a" by auto
  let ?h2 = "h @ [(h ! post)(''sentiment_analysis'' \<mapsto> PDict a)]"
  from Cons.prems(1) have ok: "list_all (\<lambda>r. r < length ?h2) posts"
    by (auto simp: list_all_iff)
  from Cons.prems have ok2: "list_all (\<lambda>r. \<exists>a. analyze (post_text (?h2 ! r)) = Inr a) posts"
    by (auto simp: list_all_iff nth_append)
  from Cons.IH [OF ok ok2] a show ?case
    by (simp add: analyze_posts_loop_Cons del: analyze_posts_loop.simps(2))
qed

section \<open>The label and the thresholds (claim C1)\<close>

text \<open>
  Claim C1, as the code has it. Enhanced analyzer: when \<^verbatim>\<open>analyze_text\<close> returns for a text
  that is not blank, the label is fixed by the VADER compound score of the whole text
  alone: a score of 0.05 or more is positive (so exactly 0.05 is positive), a score of
  -0.05 or less is negative (so exactly -0.05 is negative), all else is neutral; and it does
  return when the models do. The label, or the exception raised, is the same whatever the
  six lexicons and the iteration order of sets are, so it does not depend on the
  indicator lists. Simple analyzer: for a text that is not blank and that TextBlob scores,
  the label compares the polarity with the thresholds \<^emph>\<open>strictly\<close>: above 0.1 is positive,
  below -0.1 is negative, and the boundary values 0.1 and -0.1 themselves are neutral.
\<close>

theorem sentiment_label_thresholds:
  "(strip s \<noteq> [] \<and> enhanced_analyze_text self TextBlob set_order (PStr s) = Inr r \<longrightarrow>
      (\<exists>sc. vader self s = Inr sc
          \<and> res_sentiment r =
               (if compound sc \<ge> 0.05 then ''positive''
                else if compound sc \<le> - 0.05 then ''negative'' else ''neutral'')))
   \<and> ((\<forall>t. \<exists>sc. vader self t = Inr sc) \<and> TextBlob s = Inr b \<longrightarrow>
        (\<exists>r'. enhanced_analyze_text self TextBlob set_order (PStr s) = Inr r'))
   \<and> (vader self' = vader self \<longrightarrow>
        map_sum id res_sentiment (enhanced_analyze_text self' TextBlob set_order' v)
        = map_sum id res_sentiment (enhanced_analyze_text self TextBlob set_order v))
   \<and> (strip s \<noteq> [] \<and> Blob s = Inr (p, q) \<longrightarrow>
        (\<exists>d. analyze_text Blob (PStr s) = Inr d
           \<and> sentiment d =
                (if p > 0.1 then ''positive'' else if p < - 0.1 then ''negative''
                 else ''neutral'')))"
proof (intro conjI impI)
  assume "strip s \<noteq> [] \<and> enhanced_analyze_text self TextBlob set_order (PStr s) = Inr r"
  then show "\<exists>sc. vader self s = Inr sc
          \<and> res_sentiment r =
               (if compound sc \<ge> 0.05 then ''positive''
                else if compound sc \<le> - 0.05 then ''negative'' else ''neutral'')"
    using enhanced_analyze_text_returns [of self TextBlob set_order s r] by blast
next
  assume "(\<forall>t. \<exists>sc. vader self t = Inr sc) \<and> TextBlob s = Inr b"
  then show "\<exists>r'. enhanced_analyze_text self TextBlob set_order (PStr s) = Inr r'"
    using enhanced_analyze_text_total [of self TextBlob s b set_order] by blast
next
  assume "vader self' = vader self"
  then show "map_sum id res_sentiment (enhanced_analyze_text self' TextBlob set_order' v)
        = map_sum id res_sentiment (enhanced_analyze_text self TextBlob set_order v)"
    by (rule enhanced_label_independent)
next
  assume a: "strip s \<noteq> [] \<and> Blob s = Inr (p, q)"
  then have "s \<noteq> []" by auto
  with a show "\<exists>d. analyze_text Blob (PStr s) = Inr d
           \<and> sentiment d =
                (if p > 0.1 then ''positive'' else if p < - 0.1 then ''negative''
                 else ''neutral'')"
    by (simp add: analyze_text_def POSITIVE_THRESHOLD_def NEGATIVE_THRESHOLD_def)
qed

text \<open>The theorem at the text \<^verbatim>\<open>ok\<close>, with a VADER model that scores exactly 0.05 and a
  TextBlob model that scores 0.5: both labels are positive.\<close>

theorem sentiment_label_thresholds_witness:
  "strip ''ok'' \<noteq> []
   \<and> (\<exists>r. enhanced_analyze_text (EnhancedSentimentAnalyzer (constant_vader 0.05))
             (constant_blob 0.5 0.5) remdups (PStr ''ok'' :: enhanced_result pyval) = Inr r
          \<and> res_sentiment r = ''positive'')
   \<and> (\<exists>d. analyze_text (constant_blob 0.5 0.5) (PStr ''ok'' :: sentiment_data pyval) = Inr d
          \<and> sentiment d = ''positive'')"
proof -
  let ?A = "EnhancedSentimentAnalyzer (constant_vader 0.05)"
  let ?B = "constant_blob 0.5 0.5"
  let ?e = "PStr ''ok'' :: enhanced_result pyval"
  let ?t = "PStr ''ok'' :: sentiment_data pyval"
  have ne: "strip ''ok'' \<noteq> []"
    by (simp add: strip_def isspace_def)
  have vd: "\<forall>t. \<exists>sc. vader ?A t = Inr sc"
    by (simp add: EnhancedSentimentAnalyzer_def constant_vader_def)
  have bl: "?B ''ok'' = Inr (0.5, 0.5)"
    by (simp add: constant_blob_def)
  from sentiment_label_thresholds
         [where self = "?A" and TextBlob = "?B" and s = "''ok''" and b = "(0.5, 0.5)"
            and set_order = remdups]
       vd bl
  obtain r where r: "enhanced_analyze_text ?A ?B remdups ?e = Inr r"
    by blast
  from sentiment_label_thresholds
         [where self = "?A" and TextBlob = "?B" and s = "''ok''" and r = r
            and set_order = remdups and Blob = "?B" and p = "0.5" and q = "0.5"]
       ne r bl
  have "(\<exists>sc. vader ?A ''ok'' = Inr sc
          \<and> res_sentiment r =
               (if compound sc \<ge> 0.05 then ''positive''
                else if compound sc \<le> - 0.05 then ''negative'' else ''neutral''))"
    and simple: "\<exists>d. analyze_text ?B ?t = Inr d
           \<and> sentiment d =
                (if (0.5::real) > 0.1 then ''positive'' else if (0.5::real) < - 0.1 then ''negative''
                 else ''neutral'')"
    by blast+
  then have "res_sentiment r = ''positive''"
    by (auto simp: EnhancedSentimentAnalyzer_def constant_vader_def)
  with ne r simple show ?thesis by auto
qed

text \<open>
  Claim C1 as stated fails for the simple analyzer: it puts the boundaries of the enhanced
  classification at 0.1 and -0.1, so a polarity of exactly 0.1 would be positive. The code
  tests \<^verbatim>\<open>polarity > 0.1\<close>, and the text is neutral.
\<close>

theorem simple_label_boundary_counterexample:
  "analyze_text (constant_blob 0.1 0.5) (PStr ''fine'')
     = Inr \<lparr>polarity = 0.1, subjectivity = 0.5, sentiment = ''neutral'', confidence = 0.1,
            error = None\<rparr>
   \<and> claimed_simple_label 0.1 = ''positive''"
  by (simp add: analyze_text_def constant_blob_def strip_def isspace_def
      POSITIVE_THRESHOLD_def NEGATIVE_THRESHOLD_def py_round_def round_half_even_def
      claimed_simple_label_def)


section \<open>The lexicon tiers (claim C2)\<close>

text \<open>
  Claim C2 asks for four pairwise disjoint lexicon categories. The sets that
  \<^verbatim>\<open>__init__\<close> builds are not: the word \<^verbatim>\<open>disappointing\<close> stands both in
  \<^verbatim>\<open>strong_negative\<close> and in \<^verbatim>\<open>negative_words\<close>. It is the only word in two categories:
  the strong and the moderate negative tier share exactly this word, and the other five
  pairs of categories are disjoint.
\<close>

theorem lexicon_tiers_overlap:
  "''disappointing'' \<in> strong_negative (EnhancedSentimentAnalyzer v)
   \<and> ''disappointing'' \<in> negative_words (EnhancedSentimentAnalyzer v)
   \<and> strong_negative (EnhancedSentimentAnalyzer v) \<inter> negative_words (EnhancedSentimentAnalyzer v)
       = {''disappointing''}
   \<and> strong_positive (EnhancedSentimentAnalyzer v) \<inter> positive_words (EnhancedSentimentAnalyzer v)
       = {}
   \<and> strong_positive (EnhancedSentimentAnalyzer v) \<inter> strong_negative (EnhancedSentimentAnalyzer v)
       = {}
   \<and> strong_positive (EnhancedSentimentAnalyzer v) \<inter> negative_words (EnhancedSentimentAnalyzer v)
       = {}
   \<and> positive_words (EnhancedSentimentAnalyzer v) \<inter> strong_negative (EnhancedSentimentAnalyzer v)
       = {}
   \<and> positive_words (EnhancedSentimentAnalyzer v) \<inter> negative_words (EnhancedSentimentAnalyzer v)
       = {}"
  by (simp add: EnhancedSentimentAnalyzer_def)


section \<open>Blank input (claim C3)\<close>

text \<open>
  Claim C3, as the code has it. For a blank input (\<^verbatim>\<open>None\<close>, the empty string or white
  space only) both analyzers return one fixed neutral result, whatever the scoring models
  are, also models that raise at every call: the models are not asked. A post with
  neither \<^verbatim>\<open>full_text\<close> nor \<^verbatim>\<open>text\<close> gives the blank text \<^verbatim>\<open>''\<close>. The simple
  analyzer's result has polarity, subjectivity and confidence 0 and the label neutral.
  The enhanced analyzer's result has the label neutral, the compound, positive and
  negative scores and both TextBlob scores 0, but the \<^emph>\<open>neutral proportion 1\<close>, and its
  explanation is the string \<^verbatim>\<open>Empty or invalid text.\<close>, full stop included.
\<close>

theorem blank_input_neutral_result:
  "(blank v \<longrightarrow>
      enhanced_analyze_text self TextBlob set_order v = Inr empty_result
    \<and> analyze_text Blob v
        = Inr \<lparr>polarity = 0, subjectivity = 0, sentiment = ''neutral'', confidence = 0,
               error = None\<rparr>)
   \<and> (d ''full_text'' = None \<and> d ''text'' = None \<longrightarrow> blank (post_text d))
   \<and> vader_compound empty_result = 0 \<and> vader_positive empty_result = 0
   \<and> vader_negative empty_result = 0 \<and> vader_neutral empty_result = 1
   \<and> textblob_polarity empty_result = 0 \<and> textblob_subjectivity empty_result = 0
   \<and> res_sentiment empty_result = ''neutral''
   \<and> sentence_breakdown empty_result = []
   \<and> explanation empty_result = ''Empty or invalid text.''"
proof (intro conjI impI)
  assume b: "blank v"
  then show "enhanced_analyze_text self TextBlob set_order v = Inr empty_result"
    by (rule enhanced_analyze_text_blank)
  from b show "analyze_text Blob v
        = Inr \<lparr>polarity = 0, subjectivity = 0, sentiment = ''neutral'', confidence = 0,
               error = None\<rparr>"
    by (auto simp: analyze_text_def blank_cases)
next
  assume "d ''full_text'' = None \<and> d ''text'' = None"
  then show "blank (post_text d)"
    by (simp add: post_text_def py_or_def dict_get_def)
qed (simp_all add: empty_result_def)

text \<open>The theorem at a string of a blank, a tab and a line feed, with models that raise at
  every call.\<close>

theorem blank_input_neutral_result_witness:
  "blank (PStr [CHR '' '', CHR 0x09, CHR 0x0A] :: enhanced_result pyval)
   \<and> enhanced_analyze_text (EnhancedSentimentAnalyzer failing_model) failing_model remdups
        (PStr [CHR '' '', CHR 0x09, CHR 0x0A] :: enhanced_result pyval) = Inr empty_result
   \<and> analyze_text failing_model (PStr [CHR '' '', CHR 0x09, CHR 0x0A] :: enhanced_result pyval)
       = Inr \<lparr>polarity = 0, subjectivity = 0, sentiment = ''neutral'', confidence = 0,
              error = None\<rparr>
   \<and> (Map.empty :: enhanced_result post) ''full_text'' = None
   \<and> (Map.empty :: enhanced_result post) ''text'' = None
   \<and> blank (post_text (Map.empty :: enhanced_result post))"
  using blank_input_neutral_result
    [where v = "PStr [CHR '' '', CHR 0x09, CHR 0x0A] :: enhanced_result pyval"
       and self = "EnhancedSentimentAnalyzer failing_model" and TextBlob = failing_model
       and set_order = remdups and Blob = failing_model
       and d = "Map.empty :: enhanced_result post"]
  by (simp add: isspace_def)

text \<open>
  Claim C3 as stated fails for the enhanced analyzer: not all scores of its neutral result
  are zero, the neutral proportion \<^verbatim>\<open>vader_neutral\<close> is 1.0; and the explanation is not
  the string the claim quotes, it ends with a full stop.
\<close>

theorem blank_input_counterexample:
  "enhanced_analyze_text (EnhancedSentimentAnalyzer failing_model) failing_model remdups
     (PStr [] :: enhanced_result pyval) = Inr empty_result
   \<and> vader_neutral empty_result = 1
   \<and> explanation empty_result \<noteq> ''Empty or invalid text''"
  by (simp add: enhanced_analyze_text_def empty_result_def)


section \<open>The top posts (claim C4)\<close>

text \<open>
  Claim C4. Let all posts be well typed, as analyzed posts are, and let \<open>k\<close> be a number of
  posts, so \<open>0 \<le> k\<close>. Then \<^verbatim>\<open>get_top_posts_by_sentiment(posts, s, k)\<close> returns a list \<open>R\<close>
  of at most \<open>k\<close> posts of the input whose sentiment is exactly \<open>s\<close>, sorted by descending
  confidence, in which posts of equal confidence stand in the order they have in the
  input (for every confidence \<open>c\<close>, the posts of \<open>R\<close> with confidence \<open>c\<close> are the first
  ones of the matching input posts with confidence \<open>c\<close>). The operation is a function of
  its arguments, so two calls on the same input return the same list; and it is
  idempotent: applied to \<open>R\<close> it returns \<open>R\<close>. The dashboard's lists for the enhanced
  analyzer have at most 5 posts each: the positive posts by descending compound score,
  the negative posts by ascending compound score, posts of equal score in input order.
\<close>

theorem top_posts_by_sentiment:
  "(list_all well_typed posts \<longrightarrow>
      (\<exists>R. get_top_posts_by_sentiment posts snt k = Inr R
         \<and> (0 \<le> k \<longrightarrow> int (length R) \<le> k)
         \<and> list_all (\<lambda>p. p \<in> set posts \<and> map_option sentiment (analysis_of p) = Some snt) R
         \<and> sorted_wrt (\<lambda>a b. b \<le> a) (map (field_or confidence 0) R)
         \<and> (\<forall>c. prefix (filter (\<lambda>p. field_or confidence 0 p = c) R)
                   (filter (\<lambda>p. field_or confidence 0 p = c)
                      (filter (\<lambda>p. map_option sentiment (analysis_of p) = Some snt) posts)))
         \<and> (0 \<le> k \<longrightarrow> get_top_posts_by_sentiment R snt k = Inr R)))
   \<and> (list_all well_typed eposts \<longrightarrow>
      (\<exists>P. top_positive eposts = Inr P
         \<and> length P \<le> 5
         \<and> list_all (\<lambda>p. p \<in> set eposts
                       \<and> map_option res_sentiment (analysis_of p) = Some ''positive'') P
         \<and> sorted_wrt (\<lambda>a b. b \<le> a) (map (field_or vader_compound 0) P)
         \<and> (\<forall>c. prefix (filter (\<lambda>p. field_or vader_compound 0 p = c) P)
                   (filter (\<lambda>p. field_or vader_compound 0 p = c)
                      (filter (\<lambda>p. map_option res_sentiment (analysis_of p) = Some ''positive'')
                         eposts))))
    \<and> (\<exists>N. top_negative eposts = Inr N
         \<and> length N \<le> 5
         \<and> list_all (\<lambda>p. p \<in> set eposts
                       \<and> map_option res_sentiment (analysis_of p) = Some ''negative'') N
         \<and> sorted (map (field_or vader_compound 0) N)
         \<and> (\<forall>c. prefix (filter (\<lambda>p. field_or vader_compound 0 p = c) N)
                   (filter (\<lambda>p. field_or vader_compound 0 p = c)
                      (filter (\<lambda>p. map_option res_sentiment (analysis_of p) = Some ''negative'')
                         eposts)))))"
proof (intro conjI impI)
  assume wt: "list_all well_typed posts"
  let ?key = "field_or confidence (0::real)"
  let ?P = "\<lambda>p. map_option sentiment (analysis_of p) = Some snt"
  let ?R = "py_take k (py_sorted ?key True (filter ?P posts))"
  note props = top_list_props [of k ?key True ?P posts]
  have run: "get_top_posts_by_sentiment posts snt k = Inr ?R"
    by (rule get_top_posts_by_sentiment_eq [OF wt])
  from props have len: "0 \<le> k \<longrightarrow> int (length ?R) \<le> k" by (rule conjunct1)
  from props have mem: "list_all (\<lambda>p. p \<in> set posts \<and> ?P p) ?R"
    by (elim conjE)
  from props have "if True then sorted_wrt (\<lambda>a b. b \<le> a) (map ?key ?R)
                   else sorted (map ?key ?R)"
    by (elim conjE)
  then have srt: "sorted_wrt (\<lambda>a b. b \<le> a) (map ?key ?R)" by (simp only: if_True)
  from props have stab: "\<forall>c. prefix (filter (\<lambda>p. ?key p = c) ?R)
                   (filter (\<lambda>p. ?key p = c) (filter ?P posts))"
    by (elim conjE)
  have idem: "0 \<le> k \<longrightarrow> get_top_posts_by_sentiment ?R snt k = Inr ?R"
  proof
    assume k: "0 \<le> k"
    from mem wt have wtR: "list_all well_typed ?R"
      unfolding list_all_iff by blast
    from mem have "\<forall>p\<in>set ?R. ?P p" unfolding list_all_iff by blast
    then have fl: "filter ?P ?R = ?R" by (simp only: filter_id_conv)
    from srt have so: "py_sorted ?key True ?R = ?R"
      by (intro py_sorted_id) (simp only: if_True)
    from len k have "int (length ?R) \<le> k" by blast
    then have tk: "py_take k ?R = ?R" by (rule py_take_id)
    show "get_top_posts_by_sentiment ?R snt k = Inr ?R"
      by (simp only: get_top_posts_by_sentiment_eq [OF wtR] fl so tk)
  qed
  from run len mem srt stab idem
  show "\<exists>R. get_top_posts_by_sentiment posts snt k = Inr R
         \<and> (0 \<le> k \<longrightarrow> int (length R) \<le> k)
         \<and> list_all (\<lambda>p. p \<in> set posts \<and> map_option sentiment (analysis_of p) = Some snt) R
         \<and> sorted_wrt (\<lambda>a b. b \<le> a) (map (field_or confidence 0) R)
         \<and> (\<forall>c. prefix (filter (\<lambda>p. field_or confidence 0 p = c) R)
                   (filter (\<lambda>p. field_or confidence 0 p = c)
                      (filter (\<lambda>p. map_option sentiment (analysis_of p) = Some snt) posts)))
         \<and> (0 \<le> k \<longrightarrow> get_top_posts_by_sentiment R snt k = Inr R)"
    by (intro exI [of _ ?R] conjI)
next
  assume wt: "list_all well_typed eposts"
  let ?key = "field_or vader_compound (0::real)"
  let ?P = "\<lambda>p. map_option res_sentiment (analysis_of p) = Some ''positive''"
  let ?R = "py_take 5 (py_sorted ?key True (filter ?P eposts))"
  note props = top_list_props [of 5 ?key True ?P eposts]
  have run: "top_positive eposts = Inr ?R"
    by (rule top_positive_eq [OF wt])
  from props have "int (length ?R) \<le> 5" by simp
  then have len: "length ?R \<le> 5" by simp
  from props have mem: "list_all (\<lambda>p. p \<in> set eposts \<and> ?P p) ?R"
    by (elim conjE)
  from props have "if True then sorted_wrt (\<lambda>a b. b \<le> a) (map ?key ?R)
                   else sorted (map ?key ?R)"
    by (elim conjE)
  then have srt: "sorted_wrt (\<lambda>a b. b \<le> a) (map ?key ?R)" by (simp only: if_True)
  from props have stab: "\<forall>c. prefix (filter (\<lambda>p. ?key p = c) ?R)
                   (filter (\<lambda>p. ?key p = c) (filter ?P eposts))"
    by (elim conjE)
  from run len mem srt stab
  show "\<exists>P. top_positive eposts = Inr P
         \<and> length P \<le> 5
         \<and> list_all (\<lambda>p. p \<in> set eposts
                       \<and> map_option res_sentiment (analysis_of p) = Some ''positive'') P
         \<and> sorted_wrt (\<lambda>a b. b \<le> a) (map (field_or vader_compound 0) P)
         \<and> (\<forall>c. prefix (filter (\<lambda>p. field_or vader_compound 0 p = c) P)
                   (filter (\<lambda>p. field_or vader_compound 0 p = c)
                      (filter (\<lambda>p. map_option res_sentiment (analysis_of p) = Some ''positive'')
                         eposts)))"
    by (intro exI [of _ ?R] conjI)
next
  assume wt: "list_all well_typed eposts"
  let ?key = "field_or vader_compound (0::real)"
  let ?P = "\<lambda>p. map_option res_sentiment (analysis_of p) = Some ''negative''"
  let ?R = "py_take 5 (py_sorted ?key False (filter ?P eposts))"
  note props = top_list_props [of 5 ?key False ?P eposts]
  have run: "top_negative eposts = Inr ?R"
    by (rule top_negative_eq [OF wt])
  from props have "int (length ?R) \<le> 5" by simp
  then have len: "length ?R \<le> 5" by simp
  from props have mem: "list_all (\<lambda>p. p \<in> set eposts \<and> ?P p) ?R"
    by (elim conjE)
  from props have "if False then sorted_wrt (\<lambda>a b. b \<le> a) (map ?key ?R)
                   else sorted (map ?key ?R)"
    by (elim conjE)
  then have srt: "sorted (map ?key ?R)" by (simp only: if_False)
  from props have stab: "\<forall>c. prefix (filter (\<lambda>p. ?key p = c) ?R)
                   (filter (\<lambda>p. ?key p = c) (filter ?P eposts))"
    by (elim conjE)
  from run len mem srt stab
  show "\<exists>N. top_negative eposts = Inr N
         \<and> length N \<le> 5
         \<and> list_all (\<lambda>p. p \<in> set eposts
                       \<and> map_option res_sentiment (analysis_of p) = Some ''negative'') N
         \<and> sorted (map (field_or vader_compound 0) N)
         \<and> (\<forall>c. prefix (filter (\<lambda>p. field_or vader_compound 0 p = c) N)
                   (filter (\<lambda>p. field_or vader_compound 0 p = c)
                      (filter (\<lambda>p. map_option res_sentiment (analysis_of p) = Some ''negative'')
                         eposts)))"
    by (intro exI [of _ ?R] conjI)
qed

text \<open>
  The theorem at four posts, three of them positive and two of these of equal
  confidence, with \<open>k = 2\<close>: the most confident post, then the first of the two equal
  ones. And at three posts of the enhanced analyzer: the two negative ones, the most
  negative first.
\<close>

theorem top_posts_by_sentiment_witness:
  "list_all well_typed
     [simple_post (3 / 10) 0 ''positive'', simple_post (- (1 / 2)) 0 ''negative'',
      simple_post (7 / 10) 0 ''positive'', simple_post (3 / 10) 1 ''positive'']
   \<and> (0::int) \<le> 2
   \<and> get_top_posts_by_sentiment
       [simple_post (3 / 10) 0 ''positive'', simple_post (- (1 / 2)) 0 ''negative'',
        simple_post (7 / 10) 0 ''positive'', simple_post (3 / 10) 1 ''positive''] ''positive'' 2
      = Inr [simple_post (7 / 10) 0 ''positive'', simple_post (3 / 10) 0 ''positive'']
   \<and> get_top_posts_by_sentiment
       [simple_post (7 / 10) 0 ''positive'', simple_post (3 / 10) 0 ''positive''] ''positive'' 2
      = Inr [simple_post (7 / 10) 0 ''positive'', simple_post (3 / 10) 0 ''positive'']
   \<and> list_all well_typed
       [enhanced_post (- (1 / 5)) ''negative'', enhanced_post (3 / 5) ''positive'',
        enhanced_post (- (4 / 5)) ''negative'']
   \<and> top_negative
       [enhanced_post (- (1 / 5)) ''negative'', enhanced_post (3 / 5) ''positive'',
        enhanced_post (- (4 / 5)) ''negative'']
      = Inr [enhanced_post (- (4 / 5)) ''negative'', enhanced_post (- (1 / 5)) ''negative'']
   \<and> top_positive
       [enhanced_post (- (1 / 5)) ''negative'', enhanced_post (3 / 5) ''positive'',
        enhanced_post (- (4 / 5)) ''negative'']
      = Inr [enhanced_post (3 / 5) ''positive'']"
proof -
  let ?ps = "[simple_post (3 / 10) 0 ''positive'', simple_post (- (1 / 2)) 0 ''negative'',
      simple_post (7 / 10) 0 ''positive'', simple_post (3 / 10) 1 ''positive'']"
  let ?es = "[enhanced_post (- (1 / 5)) ''negative'', enhanced_post (3 / 5) ''positive'',
        enhanced_post (- (4 / 5)) ''negative'']"
  have wt: "list_all well_typed ?ps" "list_all well_typed ?es" by simp_all
  have top: "get_top_posts_by_sentiment ?ps ''positive'' 2
      = Inr [simple_post (7 / 10) 0 ''positive'', simple_post (3 / 10) 0 ''positive'']"
    by (simp add: get_top_posts_by_sentiment_eq py_take_def py_sorted_def field_or_def)
  have neg: "top_negative ?es
      = Inr [enhanced_post (- (4 / 5)) ''negative'', enhanced_post (- (1 / 5)) ''negative'']"
    by (simp add: top_negative_eq py_take_def py_sorted_def field_or_def)
  have pos: "top_positive ?es = Inr [enhanced_post (3 / 5) ''positive'']"
    by (simp add: top_positive_eq py_take_def py_sorted_def field_or_def)
  from top_posts_by_sentiment [of ?ps "''positive''" 2 ?es] wt top
  have "get_top_posts_by_sentiment
       [simple_post (7 / 10) 0 ''positive'', simple_post (3 / 10) 0 ''positive''] ''positive'' 2
      = Inr [simple_post (7 / 10) 0 ''positive'', simple_post (3 / 10) 0 ''positive'']"
    by simp
  with wt top neg pos show ?thesis by simp
qed

section \<open>The sentence clause of the explanation (claim C5)\<close>

text \<open>
  What \<^verbatim>\<open>_generate_explanation\<close> does with the sentence list. The list touches the last
  clause only: the parts are those for no sentences, followed by one clause or none. The
  code appends the clause when more than one sentence was analyzed and one of the labels
  positive and negative has more sentences than the other; it compares the two counts
  with each other and never with the number of entries.
\<close>

lemma explanation_parts_sentence_clause:
  "explanation_parts set_order snt score pos_ind neg_ind negs ints ss =
     explanation_parts set_order snt score pos_ind neg_ind negs ints []
     @ (if 1 < length ss
           \<and> length (filter (\<lambda>e. entry_sentiment e = ''negative'') ss)
               < length (filter (\<lambda>e. entry_sentiment e = ''positive'') ss)
        then [''Most sentences (''
              @ str_nat (length (filter (\<lambda>e. entry_sentiment e = ''positive'') ss))
              @ ''/'' @ str_nat (length ss) @ '') are positive.'']
        else if 1 < length ss
           \<and> length (filter (\<lambda>e. entry_sentiment e = ''positive'') ss)
               < length (filter (\<lambda>e. entry_sentiment e = ''negative'') ss)
        then [''Most sentences (''
              @ str_nat (length (filter (\<lambda>e. entry_sentiment e = ''negative'') ss))
              @ ''/'' @ str_nat (length ss) @ '') are negative.'']
        else [])
   \<and> generate_explanation set_order snt score pos_ind neg_ind negs ints ss
       = join '' '' (explanation_parts set_order snt score pos_ind neg_ind negs ints ss)"
  by (simp add: explanation_parts_def generate_explanation_def Let_def)

text \<open>
  Claim C5 lets the clause stand only for a label that holds a strict majority among all
  entries of \<^verbatim>\<open>sentence_breakdown\<close>, and the sentence the code prints says as much:
  \<^verbatim>\<open>Most sentences (p/n) are positive.\<close>, with \<open>n\<close> the number of all entries. The code
  breaks the claim: its test \<^verbatim>\<open>pos_sentences > neg_sentences\<close> leaves the neutral sentences
  out. With one positive and two neutral sentences the positive label holds no strict
  majority, and the explanation still ends with the clause, for 1 sentence of 3.
\<close>

theorem sentence_clause_without_majority:
  "generate_explanation remdups ''positive'' 0.5 [] [] [] []
     [\<lparr>entry_text = ''Great'', entry_sentiment = ''positive'', entry_score = 0.5\<rparr>,
      \<lparr>entry_text = ''It is a phone'', entry_sentiment = ''neutral'', entry_score = 0\<rparr>,
      \<lparr>entry_text = ''It has a screen'', entry_sentiment = ''neutral'', entry_score = 0\<rparr>]
   = ''This text is **POSITIVE** (score: 0.500). Most sentences (1/3) are positive.''
   \<and> \<not> strict_majority ''positive''
     [\<lparr>entry_text = ''Great'', entry_sentiment = ''positive'', entry_score = 0.5\<rparr>,
      \<lparr>entry_text = ''It is a phone'', entry_sentiment = ''neutral'', entry_score = 0\<rparr>,
      \<lparr>entry_text = ''It has a screen'', entry_sentiment = ''neutral'', entry_score = 0\<rparr>]"
proof
  show "generate_explanation remdups ''positive'' 0.5 [] [] [] []
     [\<lparr>entry_text = ''Great'', entry_sentiment = ''positive'', entry_score = 0.5\<rparr>,
      \<lparr>entry_text = ''It is a phone'', entry_sentiment = ''neutral'', entry_score = 0\<rparr>,
      \<lparr>entry_text = ''It has a screen'', entry_sentiment = ''neutral'', entry_score = 0\<rparr>]
   = ''This text is **POSITIVE** (score: 0.500). Most sentences (1/3) are positive.''"
    by code_simp
  show "\<not> strict_majority ''positive''
     [\<lparr>entry_text = ''Great'', entry_sentiment = ''positive'', entry_score = 0.5\<rparr>,
      \<lparr>entry_text = ''It is a phone'', entry_sentiment = ''neutral'', entry_score = 0\<rparr>,
      \<lparr>entry_text = ''It has a screen'', entry_sentiment = ''neutral'', entry_score = 0\<rparr>]"
    by (simp add: strict_majority_def)
qed

section \<open>The average over a batch (claim C6)\<close>

text \<open>
  Claim C6, as the code has it. \<^verbatim>\<open>get_average_sentiment\<close> returns the zero summary for
  the empty list, whatever the arithmetic. For a non-empty list of well-typed posts it
  takes the polarity and the subjectivity of \<^emph>\<open>all\<close> posts of the list, 0 for a post without
  a sentiment analysis, computes \<^verbatim>\<open>sum(xs) / len(xs)\<close> of either list in the
  floating-point arithmetic of the platform, and returns the two quotients rounded to
  three decimals. The overall sentiment compares the unrounded quotient of the polarities
  with the thresholds strictly: above 0.1 is positive, below -0.1 is negative, all else
  neutral. When some post stores something else than a result dictionary under
  \<^verbatim>\<open>'sentiment_analysis'\<close>, the call raises \<^verbatim>\<open>AttributeError\<close>.
\<close>

theorem get_average_sentiment_mean:
  "get_average_sentiment fl [] =
     Inr \<lparr>avg_polarity = 0, avg_subjectivity = 0, overall_sentiment = ''neutral''\<rparr>
   \<and> (posts \<noteq> [] \<and> list_all well_typed posts \<longrightarrow>
        get_average_sentiment fl posts =
          Inr \<lparr>avg_polarity = py_round (float_mean fl (map (field_or polarity 0) posts)) 3,
               avg_subjectivity =
                 py_round (float_mean fl (map (field_or subjectivity 0) posts)) 3,
               overall_sentiment =
                 (if float_mean fl (map (field_or polarity 0) posts) > 0.1 then ''positive''
                  else if float_mean fl (map (field_or polarity 0) posts) < - 0.1
                  then ''negative''
                  else ''neutral'')\<rparr>)
   \<and> (\<not> list_all well_typed posts \<longrightarrow> get_average_sentiment fl posts = Inl AttributeError)"
proof (intro conjI impI)
  show "get_average_sentiment fl [] =
     Inr \<lparr>avg_polarity = 0, avg_subjectivity = 0, overall_sentiment = ''neutral''\<rparr>"
    by (simp add: get_average_sentiment_def)
next
  assume a: "posts \<noteq> [] \<and> list_all well_typed posts"
  then have ne: "real (length posts) \<noteq> 0" by simp
  from a show "get_average_sentiment fl posts =
          Inr \<lparr>avg_polarity = py_round (float_mean fl (map (field_or polarity 0) posts)) 3,
               avg_subjectivity =
                 py_round (float_mean fl (map (field_or subjectivity 0) posts)) 3,
               overall_sentiment =
                 (if float_mean fl (map (field_or polarity 0) posts) > 0.1 then ''positive''
                  else if float_mean fl (map (field_or polarity 0) posts) < - 0.1
                  then ''negative''
                  else ''neutral'')\<rparr>"
    unfolding get_average_sentiment_def
    using ne
    by (simp add: map_exn_field py_div_def float_mean_def
        POSITIVE_THRESHOLD_def NEGATIVE_THRESHOLD_def)
next
  assume a: "\<not> list_all well_typed posts"
  then have "posts \<noteq> []" by auto
  with a show "get_average_sentiment fl posts = Inl AttributeError"
    unfolding get_average_sentiment_def
    by (simp add: map_exn_field_raises)
qed

text \<open>The theorem at two analyzed posts with polarities 0.5 and -0.25: the mean 0.125 is
  positive.\<close>

theorem get_average_sentiment_mean_witness:
  "[simple_post (1 / 2) (1 / 2) ''positive'', simple_post (- (1 / 4)) (1 / 4) ''negative'']
     \<noteq> []
   \<and> list_all well_typed
       [simple_post (1 / 2) (1 / 2) ''positive'', simple_post (- (1 / 4)) (1 / 4) ''negative'']
   \<and> get_average_sentiment exact_arith
       [simple_post (1 / 2) (1 / 2) ''positive'', simple_post (- (1 / 4)) (1 / 4) ''negative'']
       = Inr \<lparr>avg_polarity = 1 / 8, avg_subjectivity = 3 / 8,
              overall_sentiment = ''positive''\<rparr>"
  using get_average_sentiment_mean
    [of exact_arith
        "[simple_post (1 / 2) (1 / 2) ''positive'',
          simple_post (- (1 / 4)) (1 / 4) ''negative'']"]
  by (simp add: float_mean_def exact_arith_def field_or_def py_round_def round_half_even_def)

text \<open>
  Claim C6 as stated fails twice. With one analyzed post of polarity 0.5 and one post
  that carries no analysis, the code returns 0.25 where the mean over the available posts
  is 0.5. With two analyzed posts of polarities 0.125 and 0 the code returns the rounded
  value 0.062, which is not their mean 0.0625.
\<close>

theorem get_average_sentiment_counterexample:
  "get_average_sentiment exact_arith
     [simple_post (1 / 2) (1 / 2) ''positive'', raw_post ''later'']
     = Inr \<lparr>avg_polarity = 1 / 4, avg_subjectivity = 1 / 4, overall_sentiment = ''positive''\<rparr>
   \<and> mean_over_available polarity
       [simple_post (1 / 2) (1 / 2) ''positive'', raw_post ''later''] = 1 / 2
   \<and> get_average_sentiment exact_arith
        [simple_post (1 / 8) 0 ''positive'', simple_post 0 0 ''neutral'']
     = Inr \<lparr>avg_polarity = 31 / 500, avg_subjectivity = 0, overall_sentiment = ''neutral''\<rparr>
   \<and> mean_over_available polarity
        [simple_post (1 / 8) 0 ''positive'', simple_post 0 0 ''neutral'']
     = 1 / 16"
  by (simp add: get_average_sentiment_def get_sentiment_analysis_well_typed py_div_def
      exact_arith_def py_round_def round_half_even_def POSITIVE_THRESHOLD_def
      NEGATIVE_THRESHOLD_def mean_over_available_def mean_def List.map_filter_def)

section \<open>The empty batch (claim C7)\<close>

text \<open>
  Claim C7. On the empty list every aggregate function returns its default, whatever the
  arithmetic of the platform: the distribution of either class is all zero, the platform
  breakdown has no entry, both averages are zero and neutral, and the top lists are
  empty. No list of posts makes a distribution raise \<^verbatim>\<open>ZeroDivisionError\<close>: the
  percentages are computed by a division only after the test for the empty list, with the
  divisor \<^verbatim>\<open>total = len(posts)\<close>, which is positive then. For a non-empty list of
  well-typed posts the distribution holds the three counts (a post without an analysis
  counts as neutral) and, for each count, \<^verbatim>\<open>(count / total) * 100\<close> as the platform
  computes it, rounded to two decimals.
\<close>

theorem empty_batch_defaults:
  "get_sentiment_distribution fl [] =
     Inr \<lparr>total = 0, positive = 0, negative = 0, neutral = 0,
          positive_pct = 0, negative_pct = 0, neutral_pct = 0\<rparr>
   \<and> enhanced_get_sentiment_distribution fl [] =
     Inr \<lparr>total = 0, positive = 0, negative = 0, neutral = 0,
          positive_pct = 0, negative_pct = 0, neutral_pct = 0\<rparr>
   \<and> get_platform_sentiment fl [] = Inr []
   \<and> get_average_sentiment fl [] =
     Inr \<lparr>avg_polarity = 0, avg_subjectivity = 0, overall_sentiment = ''neutral''\<rparr>
   \<and> average_sentiment fl [] =
     Inr \<lparr>avg_polarity = 0, avg_subjectivity = 0, overall_sentiment = ''neutral''\<rparr>
   \<and> get_top_posts_by_sentiment [] snt limit = Inr []
   \<and> top_positive [] = Inr [] \<and> top_negative [] = Inr []
   \<and> get_sentiment_distribution fl posts \<noteq> Inl ZeroDivisionError
   \<and> enhanced_get_sentiment_distribution fl eposts \<noteq> Inl ZeroDivisionError
   \<and> (posts \<noteq> [] \<and> list_all well_typed posts \<longrightarrow>
        get_sentiment_distribution fl posts =
          Inr \<lparr>total = length posts,
               positive = count_list (map (field_or sentiment ''neutral'') posts) ''positive'',
               negative = count_list (map (field_or sentiment ''neutral'') posts) ''negative'',
               neutral = count_list (map (field_or sentiment ''neutral'') posts) ''neutral'',
               positive_pct =
                 py_round (fmul fl (fdiv fl
                    (real (count_list (map (field_or sentiment ''neutral'') posts) ''positive''))
                    (real (length posts))) 100) 2,
               negative_pct =
                 py_round (fmul fl (fdiv fl
                    (real (count_list (map (field_or sentiment ''neutral'') posts) ''negative''))
                    (real (length posts))) 100) 2,
               neutral_pct =
                 py_round (fmul fl (fdiv fl
                    (real (count_list (map (field_or sentiment ''neutral'') posts) ''neutral''))
                    (real (length posts))) 100) 2\<rparr>)"
proof -
  have dist: "sentiment_distribution fl sent ps =
          Inr \<lparr>total = length ps,
               positive = count_list (map (field_or sent ''neutral'') ps) ''positive'',
               negative = count_list (map (field_or sent ''neutral'') ps) ''negative'',
               neutral = count_list (map (field_or sent ''neutral'') ps) ''neutral'',
               positive_pct =
                 py_round (fmul fl (fdiv fl
                    (real (count_list (map (field_or sent ''neutral'') ps) ''positive''))
                    (real (length ps))) 100) 2,
               negative_pct =
                 py_round (fmul fl (fdiv fl
                    (real (count_list (map (field_or sent ''neutral'') ps) ''negative''))
                    (real (length ps))) 100) 2,
               neutral_pct =
                 py_round (fmul fl (fdiv fl
                    (real (count_list (map (field_or sent ''neutral'') ps) ''neutral''))
                    (real (length ps))) 100) 2\<rparr>"
    if "ps \<noteq> []" "list_all well_typed ps"
    for sent :: "'a \<Rightarrow> string" and ps
    using that unfolding sentiment_distribution_def
    by (simp add: map_exn_field percentage_def py_div_def Let_def)
  have nz: "sentiment_distribution fl sent ps \<noteq> Inl ZeroDivisionError"
    for sent :: "'a \<Rightarrow> string" and ps
  proof (cases "ps = []")
    case True
    then show ?thesis by (simp add: sentiment_distribution_def)
  next
    case False
    show ?thesis
    proof (cases "list_all well_typed ps")
      case True
      with False dist [of ps sent] show ?thesis by simp
    next
      case no: False
      with False show ?thesis
        unfolding sentiment_distribution_def
        by (simp add: map_exn_field_raises)
    qed
  qed
  have r0: "py_round 0 3 = 0"
    by (simp add: py_round_def round_half_even_def)
  show ?thesis
    using dist [of posts sentiment] nz [of sentiment posts] nz [of res_sentiment eposts]
    by (simp add: get_sentiment_distribution_def enhanced_get_sentiment_distribution_def
        sentiment_distribution_def get_platform_sentiment_def get_average_sentiment_def
        average_sentiment_def get_top_posts_by_sentiment_def top_positive_def
        top_negative_def py_take_def py_sorted_def r0)
qed

text \<open>The theorem at two positive posts, a post without an analysis and a negative post:
  half of the posts are positive, a quarter each negative and neutral.\<close>

theorem empty_batch_defaults_witness:
  "[simple_post (1 / 2) (1 / 2) ''positive'', raw_post ''later'',
    simple_post (- (1 / 2)) (1 / 2) ''negative'', simple_post (1 / 4) 0 ''positive''] \<noteq> []
   \<and> list_all well_typed
       [simple_post (1 / 2) (1 / 2) ''positive'', raw_post ''later'',
        simple_post (- (1 / 2)) (1 / 2) ''negative'', simple_post (1 / 4) 0 ''positive'']
   \<and> get_sentiment_distribution exact_arith
       [simple_post (1 / 2) (1 / 2) ''positive'', raw_post ''later'',
        simple_post (- (1 / 2)) (1 / 2) ''negative'', simple_post (1 / 4) 0 ''positive'']
      = Inr \<lparr>total = 4, positive = 2, negative = 1, neutral = 1,
             positive_pct = 50, negative_pct = 25, neutral_pct = 25\<rparr>"
  using empty_batch_defaults
    [of exact_arith _ _
        "[simple_post (1 / 2) (1 / 2) ''positive'', raw_post ''later'',
          simple_post (- (1 / 2)) (1 / 2) ''negative'', simple_post (1 / 4) 0 ''positive'']"]
  by (simp add: exact_arith_def field_or_def py_round_def round_half_even_def)

section \<open>The sentence breakdown (claim C8)\<close>

text \<open>
  Claim C8. Whenever the enhanced \<^verbatim>\<open>analyze_text\<close> returns, \<^verbatim>\<open>sentence_breakdown\<close> has at
  most 5 entries. For a text that is not blank its entries are, in order, those of the
  first 5 non-empty sentences of the text: an entry shows the sentence itself when the
  sentence has at most 100 characters and else its first 100 characters followed by
  \<^verbatim>\<open>...\<close>, while its label and its score come from the VADER scores of the whole
  sentence. Later sentences leave no trace. A blank input has no entries. The call
  returns when the models do.
\<close>

theorem sentence_breakdown_first_five:
  "(enhanced_analyze_text self TextBlob set_order v = Inr r \<longrightarrow>
      length (sentence_breakdown r) \<le> 5)
   \<and> (strip s \<noteq> [] \<and> enhanced_analyze_text self TextBlob set_order (PStr s) = Inr r' \<longrightarrow>
        list_all2 (entry_for self)
          (take 5 (filter (\<lambda>x. x \<noteq> []) (split_sentences s))) (sentence_breakdown r'))
   \<and> (blank v \<and> enhanced_analyze_text self TextBlob set_order v = Inr r \<longrightarrow>
        sentence_breakdown r = [])
   \<and> ((\<forall>t. \<exists>sc. vader self t = Inr sc) \<and> TextBlob s = Inr b \<longrightarrow>
        (\<exists>r''. enhanced_analyze_text self TextBlob set_order (PStr s) = Inr r''))"
proof -
  have entries: "list_all2 (entry_for self)
          (take 5 (filter (\<lambda>x. x \<noteq> []) (split_sentences u))) (sentence_breakdown ru)"
    if ne: "strip u \<noteq> []"
      and run: "enhanced_analyze_text self TextBlob set_order (PStr u) = Inr ru"
    for u ru and self :: analyzer and TextBlob set_order
  proof -
    from enhanced_analyze_text_returns [OF run ne] obtain es where
      es: "analyze_sentences self (split_sentences u) = Inr es"
      and sb: "sentence_breakdown ru = es"
      by blast
    from es have "list_all2 (entry_for self)
        (filter (\<lambda>x. x \<noteq> []) (take 5 (split_sentences u))) es"
      unfolding analyze_sentences_def by (rule analyze_sentences_loop_entries)
    then show ?thesis
      by (simp add: sb filter_nonempty_split_sentences
          filter_take_nonempty [OF split_sentences_nonempty])
  qed
  have blank_entries: "sentence_breakdown ru = []"
    if "blank w" "enhanced_analyze_text self TextBlob set_order w = Inr ru"
    for w :: "'a pyval" and ru
    using that by (auto simp: enhanced_analyze_text_blank empty_result_def)
  have at_most: "length (sentence_breakdown ru) \<le> 5"
    if run: "enhanced_analyze_text self TextBlob set_order w = Inr ru"
    for w :: "'a pyval" and ru
  proof (cases "\<exists>u. w = PStr u \<and> strip u \<noteq> []")
    case True
    then obtain u where u: "w = PStr u" "strip u \<noteq> []" by blast
    from entries [OF u(2)] run u(1)
    have "list_all2 (entry_for self)
          (take 5 (filter (\<lambda>x. x \<noteq> []) (split_sentences u))) (sentence_breakdown ru)"
      by simp
    then have "length (take 5 (filter (\<lambda>x. x \<noteq> []) (split_sentences u)))
                 = length (sentence_breakdown ru)"
      by (rule list_all2_lengthD)
    then show ?thesis by simp
  next
    case False
    with run have "ru = empty_result"
      unfolding enhanced_analyze_text_def
      by (cases w) (auto split: if_splits)
    then show ?thesis by (simp add: empty_result_def)
  qed
  show ?thesis
    using at_most [of v r] entries [of s self TextBlob set_order r'] blank_entries [of v r]
      enhanced_analyze_text_total [of self TextBlob s b set_order]
    by blast
qed

text \<open>The theorem at a text of six sentences, with a VADER model that scores every text
  0.6: five entries, for the first five sentences.\<close>

theorem sentence_breakdown_first_five_witness:
  "strip ''One. Two! Three? Four. Five. Six.'' \<noteq> []
   \<and> filter (\<lambda>x. x \<noteq> []) (split_sentences ''One. Two! Three? Four. Five. Six.'')
       = [''One'', ''Two'', ''Three'', ''Four'', ''Five'', ''Six'']
   \<and> (\<exists>r. enhanced_analyze_text (EnhancedSentimentAnalyzer (constant_vader (3 / 5)))
             (constant_blob (1 / 2) (1 / 2)) remdups
             (PStr ''One. Two! Three? Four. Five. Six.'' :: enhanced_result pyval) = Inr r
          \<and> map entry_text (sentence_breakdown r)
              = [''One'', ''Two'', ''Three'', ''Four'', ''Five'']
          \<and> map entry_sentiment (sentence_breakdown r)
              = [''positive'', ''positive'', ''positive'', ''positive'', ''positive''])"
proof -
  let ?A = "EnhancedSentimentAnalyzer (constant_vader (3 / 5))"
  let ?B = "constant_blob (1 / 2) (1 / 2)"
  let ?s = "''One. Two! Three? Four. Five. Six.''"
  let ?v = "PStr ?s :: enhanced_result pyval"
  have ne: "strip ?s \<noteq> []"
    by (simp add: strip_def isspace_def)
  have sp: "split_sentences ?s = [''One'', ''Two'', ''Three'', ''Four'', ''Five'', ''Six'']"
    by (simp add: split_sentences_def is_delimiter_def strip_def isspace_def)
  have vd: "\<forall>t. \<exists>sc. vader ?A t = Inr sc"
    by (simp add: EnhancedSentimentAnalyzer_def constant_vader_def)
  have bl: "?B ?s = Inr (1 / 2, 1 / 2)"
    by (simp add: constant_blob_def)
  from sentence_breakdown_first_five
         [where self = "?A" and TextBlob = "?B" and s = "?s" and b = "(1 / 2, 1 / 2)"
            and set_order = remdups]
       vd bl
  obtain r where r: "enhanced_analyze_text ?A ?B remdups ?v = Inr r"
    by blast
  from sentence_breakdown_first_five
         [where self = "?A" and TextBlob = "?B" and s = "?s" and r' = r
            and set_order = remdups]
       ne r
  have "list_all2 (entry_for ?A) (take 5 (filter (\<lambda>x. x \<noteq> []) (split_sentences ?s)))
          (sentence_breakdown r)"
    by blast
  then have "list_all2 (entry_for ?A) [''One'', ''Two'', ''Three'', ''Four'', ''Five'']
          (sentence_breakdown r)"
    by (simp add: sp)
  then have "map entry_text (sentence_breakdown r)
              = [''One'', ''Two'', ''Three'', ''Four'', ''Five'']
          \<and> map entry_sentiment (sentence_breakdown r)
              = [''positive'', ''positive'', ''positive'', ''positive'', ''positive'']"
    by (auto simp: list_all2_Cons1 entry_for_def EnhancedSentimentAnalyzer_def
        constant_vader_def)
  with ne sp r show ?thesis by auto
qed


section \<open>The batch operation leaves its input alone (claim C9)\<close>

text \<open>
  Claim C9. Let the posts be references to objects of the heap. Whatever
  \<^verbatim>\<open>analyze_posts\<close> does, and also when it raises, every object that was on the heap before
  the call is unchanged after it: no input post is mutated. When it returns, it returns
  as many references as it was given, all to objects allocated during the call and all
  different, and the object for a post is the dictionary of that post with the analysis
  of its text stored under \<^verbatim>\<open>'sentiment_analysis'\<close>: every other key has the value it has
  in the post. It returns whenever the analysis of every text returns. The same holds for
  both classes.
\<close>

theorem analyze_posts_frame:
  "(list_all (\<lambda>r. r < length h) posts \<and> analyze_posts Blob h posts = (h', res) \<longrightarrow>
      take (length h) h' = h
    \<and> (\<forall>out. res = Inr out \<longrightarrow> annotated_copies (analyze_text Blob) h posts h' out))
   \<and> (list_all (\<lambda>r. r < length h) posts
      \<and> list_all (\<lambda>r. \<exists>a. analyze_text Blob (post_text (h ! r)) = Inr a) posts \<longrightarrow>
      (\<exists>out. snd (analyze_posts Blob h posts) = Inr out))
   \<and> (list_all (\<lambda>r. r < length g) eposts
      \<and> enhanced_analyze_posts self TextBlob set_order g eposts = (g', eres) \<longrightarrow>
      take (length g) g' = g
    \<and> (\<forall>out. eres = Inr out \<longrightarrow>
          annotated_copies (enhanced_analyze_text self TextBlob set_order) g eposts g' out))
   \<and> (list_all (\<lambda>r. r < length g) eposts
      \<and> list_all (\<lambda>r. \<exists>a. enhanced_analyze_text self TextBlob set_order (post_text (g ! r))
                          = Inr a) eposts \<longrightarrow>
      (\<exists>out. snd (enhanced_analyze_posts self TextBlob set_order g eposts) = Inr out))"
proof -
  have frame: "take (length hp) hp' = hp
      \<and> (\<forall>out. rs = Inr out \<longrightarrow> annotated_copies analyze hp ps hp' out)"
    if ok: "list_all (\<lambda>r. r < length hp) ps"
      and run: "analyze_posts_loop analyze hp ps [] = (hp', rs)"
    for analyze :: "'a pyval \<Rightarrow> exn + 'a" and hp ps hp' rs
  proof -
    note F = analyze_posts_loop_frame [OF ok run]
    from F have t: "take (length hp) hp' = hp" by blast
    have "annotated_copies analyze hp ps hp' out" if rs: "rs = Inr out" for out
    proof -
      from F rs have out: "out = [length hp ..< length hp + length ps]"
        and len: "length hp' = length hp + length ps"
        and each: "\<forall>i<length ps. \<exists>a.
                  analyze (post_text (hp ! (ps ! i))) = Inr a
                \<and> hp' ! (length hp + i) = (hp ! (ps ! i))(''sentiment_analysis'' \<mapsto> PDict a)"
        by auto
      have nth: "out ! i = length hp + i" if "i < length ps" for i
        using that by (simp add: out)
      have "length hp \<le> out ! i \<and> out ! i < length hp'
          \<and> (\<exists>a. analyze (post_text (hp ! (ps ! i))) = Inr a
                 \<and> hp' ! (out ! i) = (hp ! (ps ! i))(''sentiment_analysis'' \<mapsto> PDict a))
          \<and> (\<forall>k. k \<noteq> ''sentiment_analysis'' \<longrightarrow> (hp' ! (out ! i)) k = (hp ! (ps ! i)) k)"
        if i: "i < length ps" for i
      proof -
        from each i obtain a where
          a: "analyze (post_text (hp ! (ps ! i))) = Inr a"
             "hp' ! (length hp + i) = (hp ! (ps ! i))(''sentiment_analysis'' \<mapsto> PDict a)"
          by blast
        with i show ?thesis by (simp add: nth len)
      qed
      moreover have "length out = length ps" "distinct out" by (simp_all add: out)
      ultimately show ?thesis by (simp add: annotated_copies_def)
    qed
    with t show ?thesis by blast
  qed
  show ?thesis
    unfolding analyze_posts_def enhanced_analyze_posts_def
    using frame [of h posts "analyze_text Blob" h' res]
      frame [of g eposts "enhanced_analyze_text self TextBlob set_order" g' eres]
      analyze_posts_loop_total [of h posts "analyze_text Blob" "[]"]
      analyze_posts_loop_total [of g eposts "enhanced_analyze_text self TextBlob set_order" "[]"]
    by blast
qed

text \<open>The theorem on a heap of two posts, for the list that names the first post twice:
  three new objects, and the two posts as they were.\<close>

theorem analyze_posts_frame_witness:
  "list_all (\<lambda>r. r < length [raw_post ''I love it'', Map.empty(''full_text'' \<mapsto> PStr ''  '')])
     [0, 1, 0]
   \<and> analyze_posts (constant_blob (1 / 2) (3 / 5))
        [raw_post ''I love it'', Map.empty(''full_text'' \<mapsto> PStr ''  '')] [0, 1, 0]
      = ([raw_post ''I love it'', Map.empty(''full_text'' \<mapsto> PStr ''  ''),
          (raw_post ''I love it'')(''sentiment_analysis'' \<mapsto>
             PDict \<lparr>polarity = 1 / 2, subjectivity = 3 / 5, sentiment = ''positive'',
                    confidence = 1 / 2, error = None\<rparr>),
          Map.empty(''full_text'' \<mapsto> PStr ''  '', ''sentiment_analysis'' \<mapsto>
             PDict \<lparr>polarity = 0, subjectivity = 0, sentiment = ''neutral'',
                    confidence = 0, error = None\<rparr>),
          (raw_post ''I love it'')(''sentiment_analysis'' \<mapsto>
             PDict \<lparr>polarity = 1 / 2, subjectivity = 3 / 5, sentiment = ''positive'',
                    confidence = 1 / 2, error = None\<rparr>)],
         Inr [2, 3, 4])
   \<and> annotated_copies (analyze_text (constant_blob (1 / 2) (3 / 5)))
        [raw_post ''I love it'', Map.empty(''full_text'' \<mapsto> PStr ''  '')] [0, 1, 0]
        [raw_post ''I love it'', Map.empty(''full_text'' \<mapsto> PStr ''  ''),
          (raw_post ''I love it'')(''sentiment_analysis'' \<mapsto>
             PDict \<lparr>polarity = 1 / 2, subjectivity = 3 / 5, sentiment = ''positive'',
                    confidence = 1 / 2, error = None\<rparr>),
          Map.empty(''full_text'' \<mapsto> PStr ''  '', ''sentiment_analysis'' \<mapsto>
             PDict \<lparr>polarity = 0, subjectivity = 0, sentiment = ''neutral'',
                    confidence = 0, error = None\<rparr>),
          (raw_post ''I love it'')(''sentiment_analysis'' \<mapsto>
             PDict \<lparr>polarity = 1 / 2, subjectivity = 3 / 5, sentiment = ''positive'',
                    confidence = 1 / 2, error = None\<rparr>)]
        [2, 3, 4]"
proof -
  let ?h = "[raw_post ''I love it'', Map.empty(''full_text'' \<mapsto> PStr ''  '')]
              :: sentiment_data heap"
  let ?c0 = "(raw_post ''I love it'')(''sentiment_analysis'' \<mapsto>
             PDict \<lparr>polarity = 1 / 2, subjectivity = 3 / 5, sentiment = ''positive'',
                    confidence = 1 / 2, error = None\<rparr>) :: sentiment_data post"
  let ?c1 = "Map.empty(''full_text'' \<mapsto> PStr ''  '', ''sentiment_analysis'' \<mapsto>
             PDict \<lparr>polarity = 0, subjectivity = 0, sentiment = ''neutral'',
                    confidence = 0, error = None\<rparr>) :: sentiment_data post"
  have ok: "list_all (\<lambda>r. r < length ?h) [0, 1, 0]" by simp
  have t0: "analyze_text (constant_blob (1 / 2) (3 / 5)) (post_text (raw_post ''I love it'' :: sentiment_data post))
            = Inr \<lparr>polarity = 1 / 2, subjectivity = 3 / 5, sentiment = ''positive'',
                    confidence = 1 / 2, error = None\<rparr>"
    by (simp add: analyze_text_def post_text_def py_or_def dict_get_def raw_post_def
        constant_blob_def strip_def isspace_def POSITIVE_THRESHOLD_def
        py_round_def round_half_even_def)
  have t1: "analyze_text (constant_blob (1 / 2) (3 / 5))
              (post_text (Map.empty(''full_text'' \<mapsto> PStr ''  '') :: sentiment_data post))
            = Inr \<lparr>polarity = 0, subjectivity = 0, sentiment = ''neutral'',
                    confidence = 0, error = None\<rparr>"
    by (simp add: analyze_text_def post_text_def py_or_def dict_get_def
        strip_def isspace_def)
  have run: "analyze_posts (constant_blob (1 / 2) (3 / 5)) ?h [0, 1, 0]
               = (?h @ [?c0, ?c1, ?c0], Inr [2, 3, 4])"
    unfolding analyze_posts_def
    by (simp add: analyze_posts_loop_Cons t0 t1 del: analyze_posts_loop.simps(2))
  from analyze_posts_frame
         [where h = "?h" and posts = "[0, 1, 0]" and Blob = "constant_blob (1 / 2) (3 / 5)"
            and h' = "?h @ [?c0, ?c1, ?c0]" and res = "Inr [2, 3, 4]"]
       ok run
  have "annotated_copies (analyze_text (constant_blob (1 / 2) (3 / 5))) ?h [0, 1, 0]
          (?h @ [?c0, ?c1, ?c0]) [2, 3, 4]"
    by blast
  with ok run show ?thesis by simp
qed


section \<open>A word in two tiers (claim C10)\<close>

text \<open>
  Claim C10. \<^verbatim>\<open>_find_sentiment_words\<close> tests the strong tier first, for whatever lexicons
  the analyzer holds: a word of the strong tier of the polarity asked for is reported
  once for each of its occurrences among the tokens, with the strength \<^verbatim>\<open>strong\<close>, and
  never with the strength \<^verbatim>\<open>moderate\<close>, also when the moderate tier lists it too. Any
  \<^verbatim>\<open>sentiment_type\<close> other than \<^verbatim>\<open>positive\<close> selects the negative tiers. The word
  \<^verbatim>\<open>disappointing\<close> is such a word of the analyzer that \<^verbatim>\<open>__init__\<close> builds.
\<close>

theorem strong_tier_tested_first:
  "(w \<in> strong_negative self \<and> sentiment_type \<noteq> ''positive'' \<longrightarrow>
      (w, ''moderate'') \<notin> set (find_sentiment_words self words sentiment_type)
    \<and> count_list (find_sentiment_words self words sentiment_type) (w, ''strong'')
        = count_list words w)
   \<and> (w \<in> strong_positive self \<longrightarrow>
      (w, ''moderate'') \<notin> set (find_sentiment_words self words ''positive'')
    \<and> count_list (find_sentiment_words self words ''positive'') (w, ''strong'')
        = count_list words w)
   \<and> ''disappointing'' \<in> strong_negative (EnhancedSentimentAnalyzer v)
   \<and> ''disappointing'' \<in> negative_words (EnhancedSentimentAnalyzer v)"
proof (intro conjI impI)
  assume a: "w \<in> strong_negative self \<and> sentiment_type \<noteq> ''positive''"
  then show "(w, ''moderate'') \<notin> set (find_sentiment_words self words sentiment_type)"
    by (induction words) (auto simp: find_sentiment_words_def)
  from a show "count_list (find_sentiment_words self words sentiment_type) (w, ''strong'')
        = count_list words w"
    by (induction words) (auto simp: find_sentiment_words_def)
next
  assume a: "w \<in> strong_positive self"
  then show "(w, ''moderate'') \<notin> set (find_sentiment_words self words ''positive'')"
    by (induction words) (auto simp: find_sentiment_words_def)
  from a show "count_list (find_sentiment_words self words ''positive'') (w, ''strong'')
        = count_list words w"
    by (induction words) (auto simp: find_sentiment_words_def)
qed (simp_all add: EnhancedSentimentAnalyzer_def)

text \<open>The theorem at the tokens of \<^verbatim>\<open>so disappointing and disappointing\<close> and at the tokens
  of \<^verbatim>\<open>love it\<close>.\<close>

theorem strong_tier_tested_first_witness:
  "''disappointing'' \<in> strong_negative (EnhancedSentimentAnalyzer failing_model)
   \<and> ''negative'' \<noteq> ''positive''
   \<and> find_sentiment_words (EnhancedSentimentAnalyzer failing_model)
       [''so'', ''disappointing'', ''and'', ''disappointing''] ''negative''
       = [(''disappointing'', ''strong''), (''disappointing'', ''strong'')]
   \<and> count_list [''so'', ''disappointing'', ''and'', ''disappointing''] ''disappointing'' = 2
   \<and> count_list (find_sentiment_words (EnhancedSentimentAnalyzer failing_model)
        [''so'', ''disappointing'', ''and'', ''disappointing''] ''negative'')
        (''disappointing'', ''strong'') = 2
   \<and> ''love'' \<in> strong_positive (EnhancedSentimentAnalyzer failing_model)
   \<and> count_list (find_sentiment_words (EnhancedSentimentAnalyzer failing_model) [''love'', ''it'']
        ''positive'') (''love'', ''strong'') = 1"
proof -
  have e: "find_sentiment_words (EnhancedSentimentAnalyzer failing_model)
       [''so'', ''disappointing'', ''and'', ''disappointing''] ''negative''
       = [(''disappointing'', ''strong''), (''disappointing'', ''strong'')]"
    by (simp add: find_sentiment_words_def EnhancedSentimentAnalyzer_def)
  have m: "''disappointing'' \<in> strong_negative (EnhancedSentimentAnalyzer failing_model)"
     "''love'' \<in> strong_positive (EnhancedSentimentAnalyzer failing_model)"
    by (simp_all add: EnhancedSentimentAnalyzer_def)
  from strong_tier_tested_first
         [of "''disappointing''" "EnhancedSentimentAnalyzer failing_model" "''negative''"
             "[''so'', ''disappointing'', ''and'', ''disappointing'']" failing_model]
       strong_tier_tested_first
         [of "''love''" "EnhancedSentimentAnalyzer failing_model" "''negative''" "[''love'', ''it'']" failing_model]
       m e
  show ?thesis by simp
qed


end
